theory Spec2Isabelle
  imports Main "HOL-Library.Word" "HOL-Library.Sublist"
begin

section \<open>Results and broker errors\<close>

text \<open>
  The library's \<open>Result\<close> enumeration (include/pulsar/Result.h), restricted to the
  enumerators that the connection, the handler base and the producer name.
\<close>

datatype Result =
    ResultOk
  | ResultUnknownError
  | ResultTimeout
  | ResultRetryable
  | ResultNotConnected
  | ResultAlreadyClosed
  | ResultConnectError
  | ResultDisconnected
  | ResultInterrupted
  | ResultProducerQueueIsFull
  | ResultMemoryBufferIsFull
  | ResultMessageTooBig
  | ResultInvalidMessage
  | ResultCryptoError
  | ResultChecksumError
  | ResultBrokerMetadataError
  | ResultBrokerPersistenceError
  | ResultAuthenticationError
  | ResultAuthorizationError
  | ResultConsumerBusy
  | ResultServiceUnitNotReady
  | ResultProducerBlockedQuotaExceededError
  | ResultProducerBlockedQuotaExceededException
  | ResultTopicNotFound
  | ResultSubscriptionNotFound
  | ResultConsumerNotFound
  | ResultUnsupportedVersionError
  | ResultTooManyLookupRequestException
  | ResultTopicTerminated
  | ResultProducerBusy
  | ResultInvalidTopicName
  | ResultIncompatibleSchema
  | ResultConsumerAssignError
  | ResultTransactionCoordinatorNotFoundError
  | ResultInvalidTxnStatusError
  | ResultNotAllowedError
  | ResultTransactionConflict
  | ResultTransactionNotFound
  | ResultProducerFenced

text \<open>
  The wire enumeration \<open>proto::ServerError\<close>, with the enumerators of the switch in
  \<open>getResult\<close>. A C++ enumeration can hold a number that is none of its enumerators
  (a newer broker's error code): \<open>UnrecognizedServerError n\<close> stands for such a value.
\<close>

datatype ServerError =
    UnknownError
  | MetadataError
  | ChecksumError
  | PersistenceError
  | AuthenticationError
  | AuthorizationError
  | ConsumerBusy
  | ServiceNotReady
  | ProducerBlockedQuotaExceededError
  | ProducerBlockedQuotaExceededException
  | TopicNotFound
  | SubscriptionNotFound
  | ConsumerNotFound
  | UnsupportedVersionError
  | TooManyRequests
  | TopicTerminatedError
  | ProducerBusy
  | InvalidTopicName
  | IncompatibleSchema
  | ConsumerAssignError
  | TransactionCoordinatorNotFound
  | InvalidTxnStatus
  | NotAllowedError
  | TransactionConflict
  | TransactionNotFound
  | ProducerFenced
  | UnrecognizedServerError int

text \<open>
  \<open>std::string::find\<close>: the position of the first occurrence of the needle, \<open>None\<close>
  for \<open>npos\<close>. \<open>find_from\<close> carries the position of the suffix being inspected.
\<close>

fun find_from :: "string \<Rightarrow> string \<Rightarrow> nat \<Rightarrow> nat option" where
  "find_from needle [] i = (if needle = [] then Some i else None)"
| "find_from needle (c # cs) i =
     (if prefix needle (c # cs) then Some i else find_from needle cs (Suc i))"

definition string_find :: "string \<Rightarrow> string \<Rightarrow> nat option" where
  "string_find hay needle = find_from needle hay 0"

text \<open>\<open>getResult\<close>: the switch, case by case, and the return after it.\<close>

fun getResult :: "ServerError \<Rightarrow> string \<Rightarrow> Result" where
  "getResult UnknownError message = ResultUnknownError"
| "getResult MetadataError message = ResultBrokerMetadataError"
| "getResult ChecksumError message = ResultChecksumError"
| "getResult PersistenceError message = ResultBrokerPersistenceError"
| "getResult AuthenticationError message = ResultAuthenticationError"
| "getResult AuthorizationError message = ResultAuthorizationError"
| "getResult ConsumerBusy message = ResultConsumerBusy"
| "getResult ServiceNotReady message =
     (if string_find message ''PulsarServerException'' = None then ResultRetryable
      else ResultServiceUnitNotReady)"
| "getResult ProducerBlockedQuotaExceededError message = ResultProducerBlockedQuotaExceededError"
| "getResult ProducerBlockedQuotaExceededException message =
     ResultProducerBlockedQuotaExceededException"
| "getResult TopicNotFound message = ResultTopicNotFound"
| "getResult SubscriptionNotFound message = ResultSubscriptionNotFound"
| "getResult ConsumerNotFound message = ResultConsumerNotFound"
| "getResult UnsupportedVersionError message = ResultUnsupportedVersionError"
| "getResult TooManyRequests message = ResultTooManyLookupRequestException"
| "getResult TopicTerminatedError message = ResultTopicTerminated"
| "getResult ProducerBusy message = ResultProducerBusy"
| "getResult InvalidTopicName message = ResultInvalidTopicName"
| "getResult IncompatibleSchema message = ResultIncompatibleSchema"
| "getResult ConsumerAssignError message = ResultConsumerAssignError"
| "getResult TransactionCoordinatorNotFound message = ResultTransactionCoordinatorNotFoundError"
| "getResult InvalidTxnStatus message = ResultInvalidTxnStatusError"
| "getResult NotAllowedError message = ResultNotAllowedError"
| "getResult TransactionConflict message = ResultTransactionConflict"
| "getResult TransactionNotFound message = ResultTransactionNotFound"
| "getResult ProducerFenced message = ResultProducerFenced"
| "getResult (UnrecognizedServerError n) message = ResultUnknownError"

section \<open>Chunk count\<close>

text \<open>
  Unsigned 32-bit division and remainder. A zero divisor is undefined behaviour in C++:
  it is the value \<open>None\<close> here, so that a model that reaches it shows it.
\<close>

definition checked_div :: "32 word \<Rightarrow> 32 word \<Rightarrow> 32 word option" where
  "checked_div a b = (if b = 0 then None else Some (a div b))"

definition checked_mod :: "32 word \<Rightarrow> 32 word \<Rightarrow> 32 word option" where
  "checked_mod a b = (if b = 0 then None else Some (a mod b))"

text \<open>
  \<open>ProducerImpl::getNumOfChunks\<close>. Both operands are \<open>uint32_t\<close>; the sum of the
  quotient and the \<open>int\<close> 0 or 1 is computed in \<open>unsigned int\<close> and converted to the
  \<open>int\<close> that is returned, which keeps the 32 bits: the returned \<open>int\<close> is
  \<open>sint\<close> of the word.
\<close>

definition getNumOfChunks :: "32 word \<Rightarrow> 32 word \<Rightarrow> 32 word option" where
  "getNumOfChunks sz maxMessageSize =
     (if sz \<ge> maxMessageSize \<and> maxMessageSize \<noteq> 0 then
        (case checked_div sz maxMessageSize of
           None \<Rightarrow> None
         | Some q \<Rightarrow>
             (case checked_mod sz maxMessageSize of
                None \<Rightarrow> None
              | Some r \<Rightarrow> Some (q + (if r = 0 then 0 else 1))))
      else Some 1)"

section \<open>Promises, timers and the pending-request registry\<close>

text \<open>
  Modelled from the spec: \<open>Promise\<close> (Future.h is not among the sources) is the
  "one-shot promise of a response value": it is completed at most once, by \<open>setValue\<close>
  or by \<open>setFailed\<close>, and a later completion changes nothing.
\<close>

datatype 'v Promise = PromisePending | PromiseValue 'v | PromiseFailed Result

definition isComplete :: "'v Promise \<Rightarrow> bool" where
  "isComplete pr = (pr \<noteq> PromisePending)"

definition setValue :: "'v \<Rightarrow> 'v Promise \<Rightarrow> 'v Promise" where
  "setValue v pr = (if isComplete pr then pr else PromiseValue v)"

definition setFailed :: "Result \<Rightarrow> 'v Promise \<Rightarrow> 'v Promise" where
  "setFailed r pr = (if isComplete pr then pr else PromiseFailed r)"

text \<open>
  The \<open>boost::system::error_code\<close> a timer handler is called with: success when the
  deadline passed, \<open>operation_aborted\<close> when the timer was cancelled.
\<close>

datatype error_code = Success | OperationAborted | OtherError

datatype TimerState = TimerArmed | TimerCancelled

record ResponseData =
  rd_producerName :: string
  rd_lastSequenceId :: "64 word"
  rd_schemaVersion :: string
  rd_topicEpoch :: "64 word option"

text \<open>
  \<open>PendingRequestData\<close>: the timer, the promise and the has-response flag. The struct
  is copied into the map, into the timer's handler and out of the map again, and every
  copy points to the same three objects, so the connection keeps them in a store
  (\<open>requestObjects\<close>) and the copies are the store's index.
\<close>

record PendingRequestData =
  prd_timer :: TimerState
  prd_promise :: "ResponseData Promise"
  hasGotResponse :: bool

text \<open>
  \<open>std::map\<close> as an association list: \<open>insert\<close> keeps an entry that is already
  there, \<open>find\<close> is \<open>map_of\<close>, \<open>erase\<close> drops the key.
\<close>

definition map_insert :: "'k \<Rightarrow> 'v \<Rightarrow> ('k \<times> 'v) list \<Rightarrow> ('k \<times> 'v) list" where
  "map_insert k v m = (if map_of m k = None then m @ [(k, v)] else m)"

definition map_erase :: "'k \<Rightarrow> ('k \<times> 'v) list \<Rightarrow> ('k \<times> 'v) list" where
  "map_erase k m = filter (\<lambda>kv. fst kv \<noteq> k) m"

section \<open>Commands and the connection\<close>

record MessageMetadata =
  md_producer_name :: string
  md_publish_time :: int
  md_sequence_id :: "64 word"

record SendArguments =
  sa_producerId :: nat
  sa_sequenceId :: "64 word"
  sa_metadata :: MessageMetadata
  sa_payload :: "8 word list"

record CommandConnected =
  server_version :: "string option"
  protocol_version :: int
  max_message_size :: "32 word option"

record CommandProducerSuccess =
  ps_request_id :: int
  ps_producer_name :: string
  ps_last_sequence_id :: "64 word"
  ps_schema_version :: "string option"
  ps_topic_epoch :: "64 word option"
  ps_producer_ready :: bool

text \<open>
  What the client writes: PING, PONG, CLOSE_PRODUCER (producer id, request id), any
  other request (its request id), and SEND.
\<close>

datatype Outgoing =
    OutPing
  | OutPong
  | OutCloseProducer nat int
  | OutRequest int
  | OutSend SendArguments

datatype CnxState = CnxPending | CnxTcpConnected | CnxReady | CnxDisconnected

text \<open>
  The connection, with the members that the modelled functions read or write (a
  member's name loses the underscore it ends with in the source). The socket is the sequence \<open>wire\<close> of buffers handed to \<open>asyncWrite\<close>, in that order;
  \<open>closeResults\<close> records each \<open>close(result)\<close> that got past its \<open>isClosed\<close>
  check, and \<open>disconnected\<close> and \<open>disconnectedConsumers\<close> the producers and
  consumers it then notified. The registry of consumers maps a consumer's id to whether
  its weak pointer can still be locked. The registries of lookups and of the
  consumer-side requests, which no modelled function reads, are left out.
\<close>

record ClientConnection =
  cnx_state :: CnxState
  havePendingPingRequest :: bool
  keepAliveTimer :: "nat option"
  serverProtocolVersion :: int
  producers :: "(nat \<times> nat) list"
  consumers :: "(nat \<times> bool) list"
  pendingRequests :: "(int \<times> nat) list"
  requestObjects :: "nat \<Rightarrow> PendingRequestData"
  nextObject :: nat
  connectPromise :: "unit Promise"
  pendingWriteOperations :: int
  pendingWriteBuffers :: "Outgoing list"
  wire :: "Outgoing list"
  closeResults :: "Result list"
  disconnected :: "(nat \<times> Result) list"
  disconnectedConsumers :: "(nat \<times> Result) list"

definition KeepAliveIntervalInSeconds :: nat where
  "KeepAliveIntervalInSeconds = 30"

text \<open>\<open>proto::v1\<close>, the first protocol version with keep-alive probes.\<close>

definition proto_v1 :: int where
  "proto_v1 = 1"

definition isClosed :: "ClientConnection \<Rightarrow> bool" where
  "isClosed c = (cnx_state c = CnxDisconnected)"

text \<open>
  \<open>sendCommand\<close> and \<open>sendMessage\<close>: the first write goes to the socket, a write
  that finds another one in flight is queued. (With TLS the first write is posted to
  the strand, which runs what is posted in order.)
\<close>

definition sendCommand :: "Outgoing \<Rightarrow> ClientConnection \<Rightarrow> ClientConnection" where
  "sendCommand cmd c =
     (if pendingWriteOperations c = 0 then
        c\<lparr>pendingWriteOperations := pendingWriteOperations c + 1, wire := wire c @ [cmd]\<rparr>
      else
        c\<lparr>pendingWriteOperations := pendingWriteOperations c + 1,
          pendingWriteBuffers := pendingWriteBuffers c @ [cmd]\<rparr>)"

definition cnx_sendMessage :: "SendArguments \<Rightarrow> ClientConnection \<Rightarrow> ClientConnection" where
  "cnx_sendMessage args c =
     (if pendingWriteOperations c > 0 then
        c\<lparr>pendingWriteOperations := pendingWriteOperations c + 1,
          pendingWriteBuffers := pendingWriteBuffers c @ [OutSend args]\<rparr>
      else
        c\<lparr>pendingWriteOperations := pendingWriteOperations c + 1,
          wire := wire c @ [OutSend args]\<rparr>)"

text \<open>
  \<open>sendPendingCommands\<close>, run when a write has completed: the next queued buffer is
  written. The source asserts that the queue is not empty there; the assertion failing
  is \<open>None\<close>.
\<close>

definition sendPendingCommands :: "ClientConnection \<Rightarrow> ClientConnection option" where
  "sendPendingCommands c =
     (let n = pendingWriteOperations c - 1 in
      if n > 0 then
        (case pendingWriteBuffers c of
           [] \<Rightarrow> None
         | b # bs \<Rightarrow>
             Some (c\<lparr>pendingWriteOperations := n, pendingWriteBuffers := bs,
                     wire := wire c @ [b]\<rparr>))
      else Some (c\<lparr>pendingWriteOperations := n\<rparr>))"

text \<open>Everything accepted for writing, in the order in which it reaches the socket.\<close>

definition accepted :: "ClientConnection \<Rightarrow> Outgoing list" where
  "accepted c = wire c @ pendingWriteBuffers c"

text \<open>
  The invariant of the write counter: it counts the write in flight and the queued
  buffers, which wait for it.
\<close>

definition writes_ok :: "ClientConnection \<Rightarrow> bool" where
  "writes_ok c =
     (0 \<le> pendingWriteOperations c \<and>
      int (length (pendingWriteBuffers c))
        = (if pendingWriteOperations c = 0 then 0 else pendingWriteOperations c - 1))"

fun failAll :: "Result \<Rightarrow> nat list \<Rightarrow> (nat \<Rightarrow> PendingRequestData) \<Rightarrow> (nat \<Rightarrow> PendingRequestData)" where
  "failAll r [] st = st"
| "failAll r (ob # obs) st =
     failAll r obs (st(ob := (st ob)\<lparr>prd_promise := setFailed r (prd_promise (st ob))\<rparr>))"

text \<open>
  \<open>close(result)\<close>: idempotent; the registries are moved out, the keep-alive timer is
  cancelled and reset, every registered producer is notified, and the connect promise
  and every pending request fail with \<open>result\<close>.
\<close>

definition close :: "Result \<Rightarrow> ClientConnection \<Rightarrow> ClientConnection" where
  "close r c =
     (if isClosed c then c
      else c\<lparr>cnx_state := CnxDisconnected,
             producers := [],
             consumers := [],
             pendingRequests := [],
             keepAliveTimer := None,
             disconnected := disconnected c @ map (\<lambda>kv. (snd kv, r)) (producers c),
             disconnectedConsumers :=
               disconnectedConsumers c @ map (\<lambda>kv. (fst kv, r)) (consumers c),
             connectPromise := setFailed r (connectPromise c),
             requestObjects := failAll r (map snd (pendingRequests c)) (requestObjects c),
             closeResults := closeResults c @ [r]\<rparr>)"

text \<open>
  \<open>close()\<close> without an argument passes the default that the declaration in
  ClientConnection.h gives it. The header is not among the sources, so the default is
  the parameter \<open>dflt\<close> of every function that calls \<open>close()\<close>.

  \<open>handlePulsarConnected\<close>. The maximum message size is a static member, shared by
  every connection of the process: it is passed in and returned beside the connection.
  The executor is taken to hand out the keep-alive timer it is asked for; the
  connect-timeout task and the consumer-stats timer are not part of the model.
\<close>

definition handlePulsarConnected ::
  "Result \<Rightarrow> CommandConnected \<Rightarrow> 32 word \<times> ClientConnection \<Rightarrow> 32 word \<times> ClientConnection" where
  "handlePulsarConnected dflt cmdConnected gc =
     (let maxMessageSize = fst gc; c = snd gc in
      if server_version cmdConnected = None then (maxMessageSize, close dflt c)
      else
        let maxMessageSize' =
              (case max_message_size cmdConnected of
                 Some m \<Rightarrow> m
               | None \<Rightarrow> maxMessageSize)
        in
        if isClosed c then (maxMessageSize', c)
        else
          let c1 = c\<lparr>cnx_state := CnxReady,
                     serverProtocolVersion := protocol_version cmdConnected\<rparr>;
              c2 = (if serverProtocolVersion c1 \<ge> proto_v1
                    then c1\<lparr>keepAliveTimer := Some KeepAliveIntervalInSeconds\<rparr>
                    else c1)
          in (maxMessageSize', c2\<lparr>connectPromise := setValue () (connectPromise c2)\<rparr>))"

definition getMaxMessageSize :: "32 word \<times> ClientConnection \<Rightarrow> int" where
  "getMaxMessageSize gc = sint (fst gc)"

text \<open>\<open>handleKeepAliveTimeout\<close>.\<close>

definition handleKeepAliveTimeout :: "Result \<Rightarrow> ClientConnection \<Rightarrow> ClientConnection" where
  "handleKeepAliveTimeout dflt c =
     (if isClosed c then c
      else if havePendingPingRequest c then close dflt c
      else
        let c1 = sendCommand OutPing (c\<lparr>havePendingPingRequest := True\<rparr>) in
        if keepAliveTimer c1 \<noteq> None
        then c1\<lparr>keepAliveTimer := Some KeepAliveIntervalInSeconds\<rparr>
        else c1)"

text \<open>
  \<open>sendRequestWithId\<close>: returns the index of the request's objects, whose promise
  is the future handed to the caller. On a closed connection the promise has failed
  already and nothing is registered or written.
\<close>

definition sendRequestWithId ::
  "Outgoing \<Rightarrow> int \<Rightarrow> ClientConnection \<Rightarrow> nat \<times> ClientConnection" where
  "sendRequestWithId cmd requestId c =
     (let ob = nextObject c in
      if isClosed c then
        (ob, c\<lparr>nextObject := Suc ob,
               requestObjects := (requestObjects c)
                 (ob := \<lparr>prd_timer = TimerCancelled,
                         prd_promise = PromiseFailed ResultNotConnected,
                         hasGotResponse = False\<rparr>)\<rparr>)
      else
        (ob, sendCommand cmd
               (c\<lparr>nextObject := Suc ob,
                  requestObjects := (requestObjects c)
                    (ob := \<lparr>prd_timer = TimerArmed, prd_promise = PromisePending,
                            hasGotResponse = False\<rparr>),
                  pendingRequests := map_insert requestId ob (pendingRequests c)\<rparr>)))"

text \<open>\<open>handleRequestTimeout\<close>, the handler of a request's deadline timer.\<close>

definition handleRequestTimeout ::
  "error_code \<Rightarrow> nat \<Rightarrow> ClientConnection \<Rightarrow> ClientConnection" where
  "handleRequestTimeout ec ob c =
     (if ec = Success \<and> \<not> hasGotResponse (requestObjects c ob) then
        c\<lparr>requestObjects := (requestObjects c)
            (ob := (requestObjects c ob)
               \<lparr>prd_promise := setFailed ResultTimeout (prd_promise (requestObjects c ob))\<rparr>)\<rparr>
      else c)"

definition responseData :: "CommandProducerSuccess \<Rightarrow> ResponseData" where
  "responseData producerSuccess =
     \<lparr>rd_producerName = ps_producer_name producerSuccess,
      rd_lastSequenceId = ps_last_sequence_id producerSuccess,
      rd_schemaVersion =
        (case ps_schema_version producerSuccess of Some v \<Rightarrow> v | None \<Rightarrow> []),
      rd_topicEpoch = ps_topic_epoch producerSuccess\<rparr>"

text \<open>\<open>handleProducerSuccess\<close>.\<close>

definition handleProducerSuccess ::
  "CommandProducerSuccess \<Rightarrow> ClientConnection \<Rightarrow> ClientConnection" where
  "handleProducerSuccess producerSuccess c =
     (case map_of (pendingRequests c) (ps_request_id producerSuccess) of
        None \<Rightarrow> c
      | Some ob \<Rightarrow>
          if \<not> ps_producer_ready producerSuccess then
            c\<lparr>requestObjects := (requestObjects c)
                (ob := (requestObjects c ob)\<lparr>hasGotResponse := True\<rparr>)\<rparr>
          else
            c\<lparr>pendingRequests := map_erase (ps_request_id producerSuccess) (pendingRequests c),
              requestObjects := (requestObjects c)
                (ob := (requestObjects c ob)
                   \<lparr>prd_promise :=
                      setValue (responseData producerSuccess) (prd_promise (requestObjects c ob)),
                    prd_timer := TimerCancelled\<rparr>)\<rparr>)"

text \<open>
  \<open>handleIncomingCommand\<close>. The inner switch over the command's type is the
  parameter \<open>handlers\<close>; the outer switch over the connection's state is here.
\<close>

datatype BaseCommand =
    CmdConnected CommandConnected
  | CmdProducerSuccess CommandProducerSuccess
  | CmdPing
  | CmdPong
  | CmdOther nat

definition handleIncomingCommand ::
  "Result \<Rightarrow> (BaseCommand \<Rightarrow> ClientConnection \<Rightarrow> ClientConnection) \<Rightarrow> BaseCommand \<Rightarrow>
   32 word \<times> ClientConnection \<Rightarrow> 32 word \<times> ClientConnection" where
  "handleIncomingCommand dflt handlers incomingCmd gc =
     (let c = snd gc in
      case cnx_state c of
        CnxPending \<Rightarrow> gc
      | CnxTcpConnected \<Rightarrow>
          (case incomingCmd of
             CmdConnected cmdConnected \<Rightarrow> handlePulsarConnected dflt cmdConnected gc
           | _ \<Rightarrow> (fst gc, close dflt c))
      | CnxDisconnected \<Rightarrow> gc
      | CnxReady \<Rightarrow> (fst gc, handlers incomingCmd (c\<lparr>havePendingPingRequest := False\<rparr>)))"

text \<open>
  The cases of the inner switch that are modelled: PRODUCER_SUCCESS, PING (answered
  with PONG), PONG, and the default case, which closes the connection.
\<close>

fun handleReadyCommand :: "Result \<Rightarrow> BaseCommand \<Rightarrow> ClientConnection \<Rightarrow> ClientConnection" where
  "handleReadyCommand dflt (CmdProducerSuccess producerSuccess) c =
     handleProducerSuccess producerSuccess c"
| "handleReadyCommand dflt CmdPing c = sendCommand OutPong c"
| "handleReadyCommand dflt CmdPong c = c"
| "handleReadyCommand dflt (CmdConnected cmdConnected) c = close dflt c"
| "handleReadyCommand dflt (CmdOther t) c = close dflt c"

text \<open>
  One complete frame of the incoming buffer, as the loop of \<open>processIncomingBuffer\<close>
  sees it: a command that does not parse; a MESSAGE command, with the consumer it is
  for and whether its broker-entry metadata (when present) and its message metadata
  parse; or any other command.
\<close>

datatype Frame =
    UnparsableFrame
  | MessageFrame nat bool bool
  | CommandFrame BaseCommand

text \<open>
  \<open>handleIncomingMessage\<close>: the message goes to the consumer it names; the entry
  of a consumer that is gone is erased. \<open>ConsumerImpl\<close> is not among the sources:
  what a consumer that receives a message does to the connection is the parameter
  \<open>messageReceived\<close>.
\<close>

definition handleIncomingMessage ::
  "(nat \<Rightarrow> ClientConnection \<Rightarrow> ClientConnection) \<Rightarrow> nat \<Rightarrow> ClientConnection \<Rightarrow>
   ClientConnection" where
  "handleIncomingMessage messageReceived consumer_id c =
     (case map_of (consumers c) consumer_id of
        None \<Rightarrow> c
      | Some alive \<Rightarrow>
          if alive then messageReceived consumer_id c
          else c\<lparr>consumers := map_erase consumer_id (consumers c)\<rparr>)"

text \<open>
  The body of the loop of \<open>processIncomingBuffer\<close> for one complete frame: a MESSAGE
  goes to \<open>handleIncomingMessage\<close>, every other command to
  \<open>handleIncomingCommand\<close>, and what does not parse closes the connection.
\<close>

definition processFrame ::
  "Result \<Rightarrow> (BaseCommand \<Rightarrow> ClientConnection \<Rightarrow> ClientConnection) \<Rightarrow>
   (nat \<Rightarrow> ClientConnection \<Rightarrow> ClientConnection) \<Rightarrow> Frame \<Rightarrow>
   32 word \<times> ClientConnection \<Rightarrow> 32 word \<times> ClientConnection" where
  "processFrame dflt handlers messageReceived frame gc =
     (case frame of
        UnparsableFrame \<Rightarrow> (fst gc, close dflt (snd gc))
      | MessageFrame consumer_id brokerEntryMetadataParses metadataParses \<Rightarrow>
          if \<not> brokerEntryMetadataParses then (fst gc, close dflt (snd gc))
          else if \<not> metadataParses then (fst gc, close dflt (snd gc))
          else (fst gc, handleIncomingMessage messageReceived consumer_id (snd gc))
      | CommandFrame incomingCmd \<Rightarrow> handleIncomingCommand dflt handlers incomingCmd gc)"

section \<open>Message ids, send operations and admission control\<close>

record MessageIdImpl =
  ledgerId :: int
  entryId :: int
  mid_partition :: int
  batchIndex :: int

text \<open>
  Modelled from the spec: \<open>ChunkMessageIdImpl\<close> (not among the sources) is the
  "aggregated MessageId ... built by combining the first and last chunks' returned ids".
  A message id is a plain id or such a composite of two plain ids.
\<close>

datatype MessageId =
    PlainMessageId MessageIdImpl
  | ChunkMessageId MessageIdImpl MessageIdImpl

record ChunkMessageIdImpl =
  firstChunkMsgId :: MessageIdImpl
  lastChunkMsgId :: MessageIdImpl

definition build :: "ChunkMessageIdImpl \<Rightarrow> MessageId" where
  "build ch = ChunkMessageId (firstChunkMsgId ch) (lastChunkMsgId ch)"

text \<open>The default-constructed \<open>MessageId\<close> that a failed send is completed with.\<close>

definition emptyMessageId :: MessageId where
  "emptyMessageId =
     PlainMessageId \<lparr>ledgerId = - 1, entryId = - 1, mid_partition = - 1, batchIndex = - 1\<rparr>"

text \<open>
  What a user callback throws: an exception derived from \<open>std::exception\<close>, with its
  \<open>what()\<close>, or an object of any other type.
\<close>

datatype Thrown = StdException string | ForeignThrowable

text \<open>
  Modelled from the spec: \<open>OpSendMsg\<close> (OpSendMsg.h is not among the sources) is the
  "immutable record: metadata, payload, sequenceId, messagesCount, messagesSize,
  timeoutDeadline, callback(s), chunkId/numChunks/chunkedMessageId", with the result of
  its construction, which the producer reads as \<open>op.result\<close>. The metadata, the
  payload and the sequence id are in \<open>sendArgs\<close>, as the producer reads them. The
  deadline is a point in time, in microseconds. \<open>onComplete\<close> stands for the
  callbacks: it is what they do when they are invoked, return (\<open>None\<close>) or throw.
  \<open>chunkedMessageId\<close> is the pointer to the object that the chunks of one message
  share, an index into the producer's store of them.
\<close>

record OpSendMsg =
  op_result :: Result
  chunkId :: int
  numChunks :: int
  messagesCount :: nat
  messagesSize :: nat
  op_timeout :: int
  onComplete :: "Thrown option"
  chunkedMessageId :: "nat option"
  sendArgs :: SendArguments

text \<open>
  Modelled from the spec: \<open>Semaphore\<close> (not among the sources) is the counting
  semaphore of the "max in-flight messages": \<open>tryAcquire\<close> takes permits when they
  are free and fails at once when they are not, \<open>acquire\<close> waits for them
  (\<open>WouldBlock\<close>: the caller is suspended) and gives up when the semaphore is closed,
  \<open>release\<close> gives permits back.
\<close>

record Semaphore =
  sem_limit :: int
  sem_usage :: int
  sem_closed :: bool

datatype 'a Blocking = Returned 'a | WouldBlock

definition sem_tryAcquire :: "int \<Rightarrow> Semaphore \<Rightarrow> bool \<times> Semaphore" where
  "sem_tryAcquire n s =
     (if sem_usage s + n \<le> sem_limit s then (True, s\<lparr>sem_usage := sem_usage s + n\<rparr>)
      else (False, s))"

definition sem_acquire :: "int \<Rightarrow> Semaphore \<Rightarrow> (bool \<times> Semaphore) Blocking" where
  "sem_acquire n s =
     (if sem_closed s then Returned (False, s)
      else if sem_usage s + n \<le> sem_limit s
      then Returned (True, s\<lparr>sem_usage := sem_usage s + n\<rparr>)
      else WouldBlock)"

definition sem_release :: "int \<Rightarrow> Semaphore \<Rightarrow> Semaphore" where
  "sem_release n s = s\<lparr>sem_usage := sem_usage s - n\<rparr>"

text \<open>
  Modelled from the spec: \<open>MemoryLimitController\<close> (not among the sources) is the
  "client-wide byte budget", with the same three kinds of operation on bytes.
\<close>

record MemoryLimitController =
  memoryLimit :: int
  mem_usage :: int
  mem_closed :: bool

definition tryReserveMemory :: "int \<Rightarrow> MemoryLimitController \<Rightarrow> bool \<times> MemoryLimitController" where
  "tryReserveMemory n m =
     (if mem_usage m + n \<le> memoryLimit m then (True, m\<lparr>mem_usage := mem_usage m + n\<rparr>)
      else (False, m))"

definition reserveMemory ::
  "int \<Rightarrow> MemoryLimitController \<Rightarrow> (bool \<times> MemoryLimitController) Blocking" where
  "reserveMemory n m =
     (if mem_closed m then Returned (False, m)
      else if mem_usage m + n \<le> memoryLimit m
      then Returned (True, m\<lparr>mem_usage := mem_usage m + n\<rparr>)
      else WouldBlock)"

definition releaseMemory :: "int \<Rightarrow> MemoryLimitController \<Rightarrow> MemoryLimitController" where
  "releaseMemory n m = m\<lparr>mem_usage := mem_usage m - n\<rparr>"

text \<open>
  Modelled from the spec: the batch container (not among the sources) is what
  "flushing constructs ... from the container": one op for the default container, a
  list of ops for the key-based one, and nothing when it is empty. Constructing the
  ops empties the container.
\<close>

datatype BatchMessageContainerBase =
    BatchMessageContainer "OpSendMsg option"
  | BatchMessageKeyBasedContainer "OpSendMsg list"

fun isEmpty :: "BatchMessageContainerBase \<Rightarrow> bool" where
  "isEmpty (BatchMessageContainer b) = (b = None)"
| "isEmpty (BatchMessageKeyBasedContainer ops) = (ops = [])"

fun hasMultiOpSendMsgs :: "BatchMessageContainerBase \<Rightarrow> bool" where
  "hasMultiOpSendMsgs (BatchMessageContainer b) = False"
| "hasMultiOpSendMsgs (BatchMessageKeyBasedContainer ops) = True"

fun createOpSendMsgs :: "BatchMessageContainerBase \<Rightarrow> OpSendMsg list" where
  "createOpSendMsgs (BatchMessageContainer b) = []"
| "createOpSendMsgs (BatchMessageKeyBasedContainer ops) = ops"

fun createOpSendMsg :: "BatchMessageContainerBase \<Rightarrow> OpSendMsg option" where
  "createOpSendMsg (BatchMessageContainer b) = b"
| "createOpSendMsg (BatchMessageKeyBasedContainer ops) = None"

fun cleared :: "BatchMessageContainerBase \<Rightarrow> BatchMessageContainerBase" where
  "cleared (BatchMessageContainer b) = BatchMessageContainer None"
| "cleared (BatchMessageKeyBasedContainer ops) = BatchMessageKeyBasedContainer []"

section \<open>The producer\<close>

datatype State = NotStarted | Pending | Ready | Closing | Closed | Failed | Producer_Fenced

datatype ProducerAccessMode = Shared | Exclusive | WaitForExclusive | ExclusiveWithFencing

text \<open>The options of \<open>ProducerConfiguration\<close> that the modelled functions read.\<close>

record ProducerConfiguration =
  sendTimeout :: int
  blockIfQueueFull :: bool
  lazyStartPartitionedProducers :: bool
  accessMode :: ProducerAccessMode
  initialSequenceId :: "64 word"
  encryptionEnabled :: bool

text \<open>
  \<open>ProducerImpl\<close> with the members of \<open>HandlerBase\<close> it inherits. Member names
  lose the underscore they end with in the source, and \<open>partition_\<close> is
  \<open>partition_ix\<close>. The memory limit controller, which the source reaches through a
  reference to the client's, is kept with the producer. Beyond the members:
  \<^item> \<open>connection\<close> is the weak pointer to the attached connection, an index into the
    store of connections (\<open>None\<close>: reset);
  \<^item> \<open>client\<close> is the weak pointer to the client, \<open>Some n\<close> when the client is
    alive and \<open>n\<close> is the request id it hands out next;
  \<^item> \<open>chunkedMessageIds\<close> is the store of the \<open>ChunkMessageIdImpl\<close> objects that
    the chunks of one message share;
  \<^item> \<open>completions\<close> records every call of \<open>OpSendMsg::complete\<close>, in order;
  \<^item> \<open>sendTimer\<close> is the time the send timer was last armed for, in microseconds,
    \<open>reconnectTimer\<close> whether the reconnection timer is armed, and \<open>backoff\<close> the
    number of delays taken from the backoff since it was reset.
\<close>

record ProducerImpl =
  state :: State
  connection :: "nat option"
  client :: "int option"
  cleanedUp :: bool
  creationTimestamp :: int
  operationTimeut :: int
  backoff :: nat
  reconnectTimer :: bool
  conf :: ProducerConfiguration
  semaphore :: "Semaphore option"
  memoryLimitController :: MemoryLimitController
  pendingMessagesQueue :: "OpSendMsg list"
  partition_ix :: int
  producerName :: string
  producerId :: nat
  msgSequenceGenerator :: "64 word"
  batchMessageContainer :: "BatchMessageContainerBase option"
  lastSequenceIdPublished :: "64 word"
  schemaVersion :: string
  topicEpoch :: "64 word option"
  sendTimer :: "int option"
  dataKeyRefreshCallback :: bool
  producerCreatedPromise :: "unit Promise"
  chunkedMessageIds :: "nat \<Rightarrow> ChunkMessageIdImpl"
  completions :: "(OpSendMsg \<times> Result \<times> MessageId) list"

text \<open>
  Durations and points in time are \<open>boost::posix_time\<close> values, counted here in
  microseconds, the resolution of the clock that the producer reads.
  \<open>total_milliseconds\<close> is the integer division of the C++ library: it truncates
  towards zero.
\<close>

definition milliseconds :: "int \<Rightarrow> int" where
  "milliseconds n = n * 1000"

definition total_milliseconds :: "int \<Rightarrow> int" where
  "total_milliseconds d = (if d < 0 then - ((- d) div 1000) else d div 1000)"

text \<open>
  \<open>ProducerImpl::canEnqueueRequest\<close>. The reservation of the bytes, which follows
  the semaphore in each of the two modes, is \<open>reserveBlocking\<close> and
  \<open>tryReserveOrRelease\<close>.
\<close>

definition tryReserveOrRelease :: "nat \<Rightarrow> ProducerImpl \<Rightarrow> Result \<times> ProducerImpl" where
  "tryReserveOrRelease payloadSize p =
     (case tryReserveMemory (int payloadSize) (memoryLimitController p) of
        (False, m) \<Rightarrow>
          (ResultMemoryBufferIsFull,
           p\<lparr>memoryLimitController := m,
             semaphore := map_option (sem_release 1) (semaphore p)\<rparr>)
      | (True, m) \<Rightarrow> (ResultOk, p\<lparr>memoryLimitController := m\<rparr>))"

definition reserveBlocking :: "nat \<Rightarrow> ProducerImpl \<Rightarrow> (Result \<times> ProducerImpl) Blocking" where
  "reserveBlocking payloadSize p =
     (case reserveMemory (int payloadSize) (memoryLimitController p) of
        WouldBlock \<Rightarrow> WouldBlock
      | Returned (False, m) \<Rightarrow> Returned (ResultInterrupted, p\<lparr>memoryLimitController := m\<rparr>)
      | Returned (True, m) \<Rightarrow> Returned (ResultOk, p\<lparr>memoryLimitController := m\<rparr>))"

definition canEnqueueRequest :: "nat \<Rightarrow> ProducerImpl \<Rightarrow> (Result \<times> ProducerImpl) Blocking" where
  "canEnqueueRequest payloadSize p =
     (if blockIfQueueFull (conf p) then
        (case semaphore p of
           None \<Rightarrow> reserveBlocking payloadSize p
         | Some s \<Rightarrow>
             (case sem_acquire 1 s of
                WouldBlock \<Rightarrow> WouldBlock
              | Returned (False, s') \<Rightarrow> Returned (ResultInterrupted, p\<lparr>semaphore := Some s'\<rparr>)
              | Returned (True, s') \<Rightarrow> reserveBlocking payloadSize (p\<lparr>semaphore := Some s'\<rparr>)))
      else
        (case semaphore p of
           None \<Rightarrow> Returned (tryReserveOrRelease payloadSize p)
         | Some s \<Rightarrow>
             (case sem_tryAcquire 1 s of
                (False, s') \<Rightarrow> Returned (ResultProducerQueueIsFull, p\<lparr>semaphore := Some s'\<rparr>)
              | (True, s') \<Rightarrow>
                  Returned (tryReserveOrRelease payloadSize (p\<lparr>semaphore := Some s'\<rparr>)))))"

text \<open>\<open>ProducerImpl::releaseSemaphoreForSendOp\<close>, and the loop that calls it for each op.\<close>

definition releaseSemaphoreForSendOp :: "OpSendMsg \<Rightarrow> ProducerImpl \<Rightarrow> ProducerImpl" where
  "releaseSemaphoreForSendOp op p =
     p\<lparr>semaphore := map_option (sem_release (int (messagesCount op))) (semaphore p),
       memoryLimitController :=
         releaseMemory (int (messagesSize op)) (memoryLimitController p)\<rparr>"

fun releaseAll :: "OpSendMsg list \<Rightarrow> ProducerImpl \<Rightarrow> ProducerImpl" where
  "releaseAll [] p = p"
| "releaseAll (op # ops) p = releaseAll ops (releaseSemaphoreForSendOp op p)"

text \<open>
  \<open>ProducerImpl::getPendingCallbacksWhenFailed\<close>: the queue is swapped out and its
  ops released; the ops of a batch container that is not empty are created and
  released as well, and those created with \<open>ResultOk\<close> are added to the result.
\<close>

definition getPendingCallbacksWhenFailed :: "ProducerImpl \<Rightarrow> OpSendMsg list \<times> ProducerImpl" where
  "getPendingCallbacksWhenFailed p =
     (let pendingMessages = pendingMessagesQueue p;
          p1 = releaseAll pendingMessages (p\<lparr>pendingMessagesQueue := []\<rparr>)
      in case batchMessageContainer p1 of
           None \<Rightarrow> (pendingMessages, p1)
         | Some container \<Rightarrow>
             if isEmpty container then (pendingMessages, p1)
             else
               let opSendMsgs =
                     (if hasMultiOpSendMsgs container then createOpSendMsgs container
                      else (case createOpSendMsg container of
                              None \<Rightarrow> []
                            | Some op \<Rightarrow> [op]));
                   p2 = releaseAll opSendMsgs
                          (p1\<lparr>batchMessageContainer := Some (cleared container)\<rparr>)
               in (pendingMessages @ filter (\<lambda>op. op_result op = ResultOk) opSendMsgs, p2))"

text \<open>
  The ops that flushing would construct from the producer's batch container: the ones
  \<open>getPendingCallbacksWhenFailed\<close> creates on top of the queue.
\<close>

definition batchedOps :: "ProducerImpl \<Rightarrow> OpSendMsg list" where
  "batchedOps p =
     (case batchMessageContainer p of
        None \<Rightarrow> []
      | Some (BatchMessageContainer None) \<Rightarrow> []
      | Some (BatchMessageContainer (Some b)) \<Rightarrow> [b]
      | Some (BatchMessageKeyBasedContainer ops) \<Rightarrow> ops)"

text \<open>
  Modelled from the spec: \<open>OpSendMsg::complete\<close> (not among the sources) invokes
  the op's "callback(s)" with the result and the message id. The call is recorded, and
  what the callbacks throw comes out of it.
\<close>

definition complete ::
  "OpSendMsg \<Rightarrow> Result \<Rightarrow> MessageId \<Rightarrow> ProducerImpl \<Rightarrow> Thrown option \<times> ProducerImpl" where
  "complete op r messageId p =
     (onComplete op, p\<lparr>completions := completions p @ [(op, r, messageId)]\<rparr>)"

text \<open>
  The loop \<open>for (const auto& op : ops) op->complete(result, {})\<close>, which the source
  has outside any \<open>try\<close> block: what a callback throws ends the loop and leaves the
  function. \<open>failPendingMessages\<close> locks the mutex or not; the model has no lock.
\<close>

fun completeAll ::
  "OpSendMsg list \<Rightarrow> Result \<Rightarrow> MessageId \<Rightarrow> ProducerImpl \<Rightarrow> Thrown option \<times> ProducerImpl" where
  "completeAll [] r messageId p = (None, p)"
| "completeAll (op # ops) r messageId p =
     (case complete op r messageId p of
        (Some e, p') \<Rightarrow> (Some e, p')
      | (None, p') \<Rightarrow> completeAll ops r messageId p')"

definition failPendingMessages :: "Result \<Rightarrow> ProducerImpl \<Rightarrow> Thrown option \<times> ProducerImpl" where
  "failPendingMessages r p =
     (case getPendingCallbacksWhenFailed p of
        (opSendMsgs, p1) \<Rightarrow> completeAll opSendMsgs r emptyMessageId p1)"

definition asyncWaitSendTimeout :: "int \<Rightarrow> ProducerImpl \<Rightarrow> ProducerImpl" where
  "asyncWaitSendTimeout expiryTime p = p\<lparr>sendTimer := Some expiryTime\<rparr>"

definition startSendTimeoutTimer :: "ProducerImpl \<Rightarrow> ProducerImpl" where
  "startSendTimeoutTimer p =
     (if sendTimeout (conf p) > 0
      then asyncWaitSendTimeout (milliseconds (sendTimeout (conf p))) p
      else p)"

text \<open>
  \<open>ProducerImpl::handleSendTimeout\<close>, called with the timer's error code at the
  time \<open>now\<close>. The first component of the result is what a callback threw out of the
  function, if one did.
\<close>

definition handleSendTimeout ::
  "error_code \<Rightarrow> int \<Rightarrow> ProducerImpl \<Rightarrow> Thrown option \<times> ProducerImpl" where
  "handleSendTimeout err now p =
     (if state p \<noteq> Pending \<and> state p \<noteq> Ready then (None, p)
      else if err = OperationAborted then (None, p)
      else if err \<noteq> Success then (None, p)
      else
        (case pendingMessagesQueue p of
           [] \<Rightarrow> (None, asyncWaitSendTimeout (milliseconds (sendTimeout (conf p))) p)
         | front # rest \<Rightarrow>
             let diff = op_timeout front - now in
             if total_milliseconds diff \<le> 0 then
               (case getPendingCallbacksWhenFailed p of
                  (pendingMessages, p1) \<Rightarrow>
                    completeAll pendingMessages ResultTimeout emptyMessageId
                      (asyncWaitSendTimeout (milliseconds (sendTimeout (conf p1))) p1))
             else (None, asyncWaitSendTimeout diff p)))"

text \<open>
  \<open>ProducerImpl::ackReceived\<close>. The result is what the function returns, or what
  left it: the \<open>catch\<close> around the callback handles \<open>std::exception\<close> only.
\<close>

definition ackMessageId ::
  "OpSendMsg \<Rightarrow> MessageIdImpl \<Rightarrow> (nat \<Rightarrow> ChunkMessageIdImpl) \<Rightarrow>
   MessageId \<times> (nat \<Rightarrow> ChunkMessageIdImpl)" where
  "ackMessageId op messageId store =
     (case chunkedMessageId op of
        None \<Rightarrow> (PlainMessageId messageId, store)
      | Some h \<Rightarrow>
          if chunkId op = 0
          then (PlainMessageId messageId,
                store(h := (store h)\<lparr>firstChunkMsgId := messageId\<rparr>))
          else if chunkId op = numChunks op - 1
          then (build ((store h)\<lparr>lastChunkMsgId := messageId\<rparr>),
                store(h := (store h)\<lparr>lastChunkMsgId := messageId\<rparr>))
          else (PlainMessageId messageId, store))"

definition ackReceived ::
  "64 word \<Rightarrow> MessageIdImpl \<Rightarrow> ProducerImpl \<Rightarrow> (Thrown + bool) \<times> ProducerImpl" where
  "ackReceived sequenceId rawMessageId p =
     (let messageId = rawMessageId\<lparr>mid_partition := partition_ix p\<rparr> in
      case pendingMessagesQueue p of
        [] \<Rightarrow> (Inr True, p)
      | op # rest \<Rightarrow>
          if op_result op \<noteq> ResultOk then (Inr False, p)
          else
            let expectedSequenceId = sa_sequenceId (sendArgs op) in
            if sequenceId > expectedSequenceId then (Inr False, p)
            else if sequenceId < expectedSequenceId then (Inr True, p)
            else
              (case ackMessageId op messageId (chunkedMessageIds p) of
                 (finalMessageId, store) \<Rightarrow>
                   let p1 = releaseSemaphoreForSendOp op (p\<lparr>chunkedMessageIds := store\<rparr>);
                       p2 = p1\<lparr>lastSequenceIdPublished :=
                                  sequenceId + of_nat (messagesCount op) - 1,
                                pendingMessagesQueue := rest\<rparr>
                   in (case complete op ResultOk finalMessageId p2 of
                         (None, p3) \<Rightarrow> (Inr True, p3)
                       | (Some (StdException what), p3) \<Rightarrow> (Inr True, p3)
                       | (Some ForeignThrowable, p3) \<Rightarrow> (Inl ForeignThrowable, p3))))"

section \<open>The producer on a connection\<close>

text \<open>
  The connections are objects that outlive a call and that the producer points to:
  they live in a store, indexed by numbers; \<open>None\<close> is a connection that has been
  destroyed, which a weak pointer fails to lock.
\<close>

type_synonym CnxStore = "nat \<Rightarrow> ClientConnection option"

definition onCnx ::
  "nat \<Rightarrow> (ClientConnection \<Rightarrow> ClientConnection) \<Rightarrow> CnxStore \<Rightarrow> CnxStore" where
  "onCnx cnx f cs = (case cs cnx of None \<Rightarrow> cs | Some c \<Rightarrow> cs(cnx := Some (f c)))"

definition lockCnx :: "CnxStore \<Rightarrow> nat option \<Rightarrow> nat option" where
  "lockCnx cs weak =
     (case weak of
        None \<Rightarrow> None
      | Some cnx \<Rightarrow> (case cs cnx of None \<Rightarrow> None | Some c \<Rightarrow> Some cnx))"

definition registerProducer :: "nat \<Rightarrow> nat \<Rightarrow> ClientConnection \<Rightarrow> ClientConnection" where
  "registerProducer pid producer c = c\<lparr>producers := map_insert pid producer (producers c)\<rparr>"

definition removeProducer :: "nat \<Rightarrow> ClientConnection \<Rightarrow> ClientConnection" where
  "removeProducer pid c = c\<lparr>producers := map_erase pid (producers c)\<rparr>"

text \<open>
  \<open>HandlerBase::setCnx\<close>, with \<open>ProducerImpl::beforeConnectionChange\<close> for the
  connection that was attached before.
\<close>

definition setCnx :: "nat \<Rightarrow> ProducerImpl \<times> CnxStore \<Rightarrow> ProducerImpl \<times> CnxStore" where
  "setCnx cnx w =
     (let p = fst w; cs = snd w;
          cs' = (case lockCnx cs (connection p) of
                   None \<Rightarrow> cs
                 | Some previousCnx \<Rightarrow> onCnx previousCnx (removeProducer (producerId p)) cs)
      in (p\<lparr>connection := Some cnx\<rparr>, cs'))"

text \<open>\<open>ProducerImpl::resendMessages\<close>: the loop over the queue, then the function.\<close>

fun resendAll :: "OpSendMsg list \<Rightarrow> ClientConnection \<Rightarrow> ClientConnection" where
  "resendAll [] c = c"
| "resendAll (op # ops) c = resendAll ops (cnx_sendMessage (sendArgs op) c)"

definition resendMessages :: "nat \<Rightarrow> ProducerImpl \<Rightarrow> CnxStore \<Rightarrow> CnxStore" where
  "resendMessages cnx p cs =
     (if pendingMessagesQueue p = [] then cs
      else onCnx cnx (resendAll (pendingMessagesQueue p)) cs)"

text \<open>\<open>ProducerImpl::sendMessage\<close>: the op is queued, and written if a connection is attached.\<close>

definition sendMessage :: "OpSendMsg \<Rightarrow> ProducerImpl \<times> CnxStore \<Rightarrow> ProducerImpl \<times> CnxStore" where
  "sendMessage opSendMsg w =
     (let p = fst w; cs = snd w;
          p' = p\<lparr>pendingMessagesQueue := pendingMessagesQueue p @ [opSendMsg]\<rparr>
      in case lockCnx cs (connection p) of
           Some cnx \<Rightarrow> (p', onCnx cnx (cnx_sendMessage (sendArgs opSendMsg)) cs)
         | None \<Rightarrow> (p', cs))"

text \<open>
  \<open>ClientConnection::handleSendReceipt\<close>, the caller of \<open>ackReceived\<close>: the
  receipt goes to the producer registered under its producer id, and the connection is
  closed when the producer returns false. The registry holds weak pointers: the one
  whose handle is the producer of the model locks it, any other is a producer that is
  gone. The first component of the result is what a callback threw out of the call,
  the last one the producer as \<open>ackReceived\<close> left it: the notification that
  \<open>close\<close> sends to the registered producers is recorded in \<open>disconnected\<close>.
\<close>

record CommandSendReceipt =
  sr_producer_id :: nat
  sr_sequence_id :: "64 word"
  sr_message_id :: MessageIdImpl

definition handleSendReceipt ::
  "Result \<Rightarrow> CommandSendReceipt \<Rightarrow> ClientConnection \<times> ProducerImpl \<Rightarrow>
   Thrown option \<times> ClientConnection \<times> ProducerImpl" where
  "handleSendReceipt dflt sendReceipt cp =
     (let c = fst cp; p = snd cp in
      case map_of (producers c) (sr_producer_id sendReceipt) of
        None \<Rightarrow> (None, c, p)
      | Some h \<Rightarrow>
          if h = producerId p then
            (case ackReceived (sr_sequence_id sendReceipt) (sr_message_id sendReceipt) p of
               (Inl e, p') \<Rightarrow> (Some e, c, p')
             | (Inr True, p') \<Rightarrow> (None, c, p')
             | (Inr False, p') \<Rightarrow> (None, close dflt c, p'))
          else (None, c, p))"

text \<open>
  \<open>HandlerBase::scheduleReconnection\<close> and \<open>convertToTimeoutIfNecessary\<close>; the
  latter reads the clock, which is the argument \<open>now\<close>.
\<close>

definition scheduleReconnection :: "ProducerImpl \<Rightarrow> ProducerImpl" where
  "scheduleReconnection p =
     (if state p = Pending \<or> state p = Ready
      then p\<lparr>backoff := Suc (backoff p), reconnectTimer := True\<rparr>
      else p)"

definition convertToTimeoutIfNecessary :: "Result \<Rightarrow> int \<Rightarrow> int \<Rightarrow> ProducerImpl \<Rightarrow> Result" where
  "convertToTimeoutIfNecessary r startTimestamp now p =
     (if r = ResultRetryable \<and> now - startTimestamp \<ge> operationTimeut p then ResultTimeout
      else r)"

text \<open>
  The request to close the producer on the broker that \<open>handleCreateProducer\<close> sends
  when the client is still alive: a fresh request id, then \<open>sendRequestWithId\<close>.
\<close>

definition sendCloseProducer :: "nat \<Rightarrow> ProducerImpl \<times> CnxStore \<Rightarrow> ProducerImpl \<times> CnxStore" where
  "sendCloseProducer cnx w =
     (let p = fst w; cs = snd w in
      case client p of
        None \<Rightarrow> w
      | Some requestId \<Rightarrow>
          (p\<lparr>client := Some (requestId + 1)\<rparr>,
           onCnx cnx
             (\<lambda>c. snd (sendRequestWithId (OutCloseProducer (producerId p) requestId) requestId c))
             cs))"

definition cleanupProducer :: "ProducerImpl \<Rightarrow> ProducerImpl" where
  "cleanupProducer p = (case client p of None \<Rightarrow> p | Some n \<Rightarrow> p\<lparr>cleanedUp := True\<rparr>)"

text \<open>
  \<open>ProducerImpl::handleCreateProducer\<close>, the listener of the CREATE_PRODUCER request
  sent on the connection \<open>cnx\<close>. The branches follow the source; the success branch is
  \<open>createdOnBroker\<close>.
\<close>

definition createdOnBroker ::
  "nat \<Rightarrow> ResponseData \<Rightarrow> ProducerImpl \<times> CnxStore \<Rightarrow> ProducerImpl \<times> CnxStore" where
  "createdOnBroker cnx rd w =
     (let p = fst w; cs = snd w;
          cs1 = onCnx cnx (registerProducer (producerId p) (producerId p)) cs;
          p1 = p\<lparr>producerName := rd_producerName rd,
                 schemaVersion := rd_schemaVersion rd,
                 topicEpoch := rd_topicEpoch rd\<rparr>;
          p2 = (if lastSequenceIdPublished p1 = - 1 \<and> initialSequenceId (conf p1) = - 1
                then p1\<lparr>lastSequenceIdPublished := rd_lastSequenceId rd,
                        msgSequenceGenerator := rd_lastSequenceId rd + 1\<rparr>
                else p1);
          cs2 = resendMessages cnx p2 cs1;
          w3 = setCnx cnx (p2, cs2);
          p4 = (fst w3)\<lparr>state := Ready, backoff := 0\<rparr>;
          p5 = (if encryptionEnabled (conf p4) then p4\<lparr>dataKeyRefreshCallback := True\<rparr>
                else p4);
          p6 = (if \<not> (lazyStartPartitionedProducers (conf p5) \<and> accessMode (conf p5) = Shared)
                then startSendTimeoutTimer p5
                else p5)
      in (p6\<lparr>producerCreatedPromise := setValue () (producerCreatedPromise p6)\<rparr>, snd w3))"

definition handleCreateProducer ::
  "nat \<Rightarrow> Result \<Rightarrow> ResponseData \<Rightarrow> int \<Rightarrow> ProducerImpl \<times> CnxStore \<Rightarrow>
   Thrown option \<times> ProducerImpl \<times> CnxStore" where
  "handleCreateProducer cnx r rd now w =
     (let p = fst w; cs = snd w in
      if state p \<noteq> Ready \<and> state p \<noteq> Pending then
        (case failPendingMessages ResultAlreadyClosed p of
           (Some e, p1) \<Rightarrow> (Some e, p1, cs)
         | (None, p1) \<Rightarrow>
             let w1 = (if r = ResultOk \<or> r = ResultTimeout
                       then sendCloseProducer cnx (p1, cs)
                       else (p1, cs));
                 p2 = fst w1
             in (None,
                 p2\<lparr>producerCreatedPromise :=
                      setFailed ResultAlreadyClosed (producerCreatedPromise p2)\<rparr>,
                 snd w1))
      else if r = ResultOk then (None, createdOnBroker cnx rd w)
      else
        let w1 = (if r = ResultTimeout then sendCloseProducer cnx w else w);
            p1 = fst w1; cs1 = snd w1
        in
        if r = ResultProducerFenced then
          (case failPendingMessages r (p1\<lparr>state := Producer_Fenced\<rparr>) of
             (Some e, p2) \<Rightarrow> (Some e, p2, cs1)
           | (None, p2) \<Rightarrow>
               let p3 = cleanupProducer p2 in
               (None,
                p3\<lparr>producerCreatedPromise := setFailed r (producerCreatedPromise p3)\<rparr>,
                cs1))
        else if isComplete (producerCreatedPromise p1) then
          (case (if r = ResultProducerBlockedQuotaExceededException
                 then failPendingMessages ResultProducerBlockedQuotaExceededException p1
                 else (None, p1)) of
             (Some e, p2) \<Rightarrow> (Some e, p2, cs1)
           | (None, p2) \<Rightarrow> (None, scheduleReconnection p2, cs1))
        else
          let r' = convertToTimeoutIfNecessary r (creationTimestamp p1) now p1 in
          if r' = ResultRetryable then (None, scheduleReconnection p1, cs1)
          else
            (case failPendingMessages r' p1 of
               (Some e, p2) \<Rightarrow> (Some e, p2, cs1)
             | (None, p2) \<Rightarrow>
                 (None,
                  p2\<lparr>state := Failed,
                     producerCreatedPromise := setFailed r' (producerCreatedPromise p2)\<rparr>,
                  cs1)))"

section \<open>Construction\<close>

text \<open>
  The connection as its constructor leaves it (without TLS), and the producer as its
  constructor leaves it when batching is off: no connection, nothing in flight, the
  semaphore present when \<open>maxPendingMessages\<close> is positive.
\<close>

definition newClientConnection :: ClientConnection where
  "newClientConnection =
     \<lparr>cnx_state = CnxPending, havePendingPingRequest = False, keepAliveTimer = None,
      serverProtocolVersion = 0, producers = [], consumers = [], pendingRequests = [],
      requestObjects = (\<lambda>ob. \<lparr>prd_timer = TimerCancelled, prd_promise = PromisePending,
                               hasGotResponse = False\<rparr>),
      nextObject = 0, connectPromise = PromisePending, pendingWriteOperations = 0,
      pendingWriteBuffers = [], wire = [], closeResults = [], disconnected = [],
      disconnectedConsumers = []\<rparr>"

definition newProducerImpl ::
  "ProducerConfiguration \<Rightarrow> int \<Rightarrow> MemoryLimitController \<Rightarrow> int \<Rightarrow> nat \<Rightarrow> int \<Rightarrow> int \<Rightarrow>
   ProducerImpl" where
  "newProducerImpl cfg maxPendingMessages mlc part pid now opTimeout =
     \<lparr>state = NotStarted, connection = None, client = Some 0, cleanedUp = False,
      creationTimestamp = now, operationTimeut = opTimeout, backoff = 0,
      reconnectTimer = False, conf = cfg,
      semaphore = (if maxPendingMessages > 0
                   then Some \<lparr>sem_limit = maxPendingMessages, sem_usage = 0, sem_closed = False\<rparr>
                   else None),
      memoryLimitController = mlc, pendingMessagesQueue = [], partition_ix = part,
      producerName = [], producerId = pid,
      msgSequenceGenerator = initialSequenceId cfg + 1, batchMessageContainer = None,
      lastSequenceIdPublished = initialSequenceId cfg, schemaVersion = [],
      topicEpoch = None, sendTimer = None, dataKeyRefreshCallback = False,
      producerCreatedPromise = PromisePending,
      chunkedMessageIds =
        (\<lambda>h. \<lparr>firstChunkMsgId =
                   \<lparr>ledgerId = - 1, entryId = - 1, mid_partition = - 1, batchIndex = - 1\<rparr>,
                lastChunkMsgId =
                   \<lparr>ledgerId = - 1, entryId = - 1, mid_partition = - 1, batchIndex = - 1\<rparr>\<rparr>),
      completions = []\<rparr>"

section \<open>Example states\<close>

text \<open>
  A connection that has received CONNECTED, a configuration, and a producer in state
  \<open>Ready\<close> that holds the permits and the bytes of the ops in its queue. \<open>sendOp\<close>
  is the op of one unchunked message of 100 bytes.
\<close>

definition readyConnection :: ClientConnection where
  "readyConnection =
     newClientConnection\<lparr>cnx_state := CnxReady, serverProtocolVersion := 19,
                         keepAliveTimer := Some KeepAliveIntervalInSeconds,
                         connectPromise := PromiseValue ()\<rparr>"

definition exampleConf :: ProducerConfiguration where
  "exampleConf =
     \<lparr>sendTimeout = 30000, blockIfQueueFull = False, lazyStartPartitionedProducers = False,
      accessMode = Shared, initialSequenceId = - 1, encryptionEnabled = False\<rparr>"

definition sendOp :: "64 word \<Rightarrow> int \<Rightarrow> Thrown option \<Rightarrow> OpSendMsg" where
  "sendOp seq deadline behaviour =
     \<lparr>op_result = ResultOk, chunkId = - 1, numChunks = - 1, messagesCount = 1,
      messagesSize = 100, op_timeout = deadline, onComplete = behaviour,
      chunkedMessageId = None,
      sendArgs = \<lparr>sa_producerId = 7, sa_sequenceId = seq,
                  sa_metadata = \<lparr>md_producer_name = ''standalone-0-7'', md_publish_time = 0,
                                 md_sequence_id = seq\<rparr>,
                  sa_payload = []\<rparr>\<rparr>"

definition producerWith :: "OpSendMsg list \<Rightarrow> ProducerImpl" where
  "producerWith ops =
     (newProducerImpl exampleConf 10
        \<lparr>memoryLimit = 1000, mem_usage = int (sum_list (map messagesSize ops)),
         mem_closed = False\<rparr>
        3 7 0 30000000)
     \<lparr>state := Ready,
      pendingMessagesQueue := ops,
      semaphore := Some \<lparr>sem_limit = 10, sem_usage = int (sum_list (map messagesCount ops)),
                         sem_closed = False\<rparr>\<rparr>"

section \<open>Properties of the error mapping\<close>

lemma find_from_None: "find_from needle hay i = None \<longleftrightarrow> \<not> sublist needle hay"
proof (induction hay arbitrary: i)
  case Nil
  then show ?case by simp
next
  case (Cons c cs)
  then show ?case by (simp add: sublist_Cons_right)
qed

lemma string_find_npos: "string_find hay needle = None \<longleftrightarrow> \<not> sublist needle hay"
  by (simp add: string_find_def find_from_None)

text \<open>
  C6. For every broker error and every message, \<open>getResult\<close> maps
  \<open>ServiceNotReady\<close> to \<open>ResultRetryable\<close> when the message does not contain the
  substring "PulsarServerException" and to \<open>ResultServiceUnitNotReady\<close> when it does;
  every other enumerator maps to its own fixed result, whatever the message, and a value
  that is none of the enumerators maps to \<open>ResultUnknownError\<close>.
\<close>

theorem getResult_mapping:
  "getResult ServiceNotReady message =
     (if sublist ''PulsarServerException'' message then ResultServiceUnitNotReady
      else ResultRetryable)
   \<and> getResult UnknownError message = ResultUnknownError
   \<and> getResult MetadataError message = ResultBrokerMetadataError
   \<and> getResult ChecksumError message = ResultChecksumError
   \<and> getResult PersistenceError message = ResultBrokerPersistenceError
   \<and> getResult AuthenticationError message = ResultAuthenticationError
   \<and> getResult AuthorizationError message = ResultAuthorizationError
   \<and> getResult ConsumerBusy message = ResultConsumerBusy
   \<and> getResult ProducerBlockedQuotaExceededError message =
       ResultProducerBlockedQuotaExceededError
   \<and> getResult ProducerBlockedQuotaExceededException message =
       ResultProducerBlockedQuotaExceededException
   \<and> getResult TopicNotFound message = ResultTopicNotFound
   \<and> getResult SubscriptionNotFound message = ResultSubscriptionNotFound
   \<and> getResult ConsumerNotFound message = ResultConsumerNotFound
   \<and> getResult UnsupportedVersionError message = ResultUnsupportedVersionError
   \<and> getResult TooManyRequests message = ResultTooManyLookupRequestException
   \<and> getResult TopicTerminatedError message = ResultTopicTerminated
   \<and> getResult ProducerBusy message = ResultProducerBusy
   \<and> getResult InvalidTopicName message = ResultInvalidTopicName
   \<and> getResult IncompatibleSchema message = ResultIncompatibleSchema
   \<and> getResult ConsumerAssignError message = ResultConsumerAssignError
   \<and> getResult TransactionCoordinatorNotFound message =
       ResultTransactionCoordinatorNotFoundError
   \<and> getResult InvalidTxnStatus message = ResultInvalidTxnStatusError
   \<and> getResult NotAllowedError message = ResultNotAllowedError
   \<and> getResult TransactionConflict message = ResultTransactionConflict
   \<and> getResult TransactionNotFound message = ResultTransactionNotFound
   \<and> getResult ProducerFenced message = ResultProducerFenced
   \<and> getResult (UnrecognizedServerError n) message = ResultUnknownError"
  by (simp add: string_find_npos)

theorem getResult_mapping_witness:
  "getResult ServiceNotReady ''org.apache.pulsar.PulsarServerException: busy''
     = ResultServiceUnitNotReady
   \<and> getResult ServiceNotReady ''Namespace bundle is being unloaded'' = ResultRetryable
   \<and> getResult TooManyRequests ''PulsarServerException'' = ResultTooManyLookupRequestException
   \<and> getResult (UnrecognizedServerError 99) ''x'' = ResultUnknownError"
proof -
  have a: "sublist ''PulsarServerException'' ''org.apache.pulsar.PulsarServerException: busy''"
    unfolding sublist_def
    by (rule exI [of _ "''org.apache.pulsar.''"], rule exI [of _ "'': busy''"]) simp
  have "string_find ''Namespace bundle is being unloaded'' ''PulsarServerException'' = None"
    by (simp add: string_find_def)
  then have b: "\<not> sublist ''PulsarServerException'' ''Namespace bundle is being unloaded''"
    by (simp add: string_find_npos)
  from a b
    getResult_mapping [of "''org.apache.pulsar.PulsarServerException: busy''" 99]
    getResult_mapping [of "''Namespace bundle is being unloaded''" 99]
    getResult_mapping [of "''PulsarServerException''" 99]
    getResult_mapping [of "''x''" 99]
  show ?thesis by simp
qed

section \<open>Properties of the chunk count\<close>

lemma getNumOfChunks_total: "\<exists>n. getNumOfChunks sz maxMessageSize = Some n"
  by (simp add: getNumOfChunks_def checked_div_def checked_mod_def)

lemma getNumOfChunks_no_split:
  "getNumOfChunks sz 0 = Some 1"
  "sz < maxMessageSize \<Longrightarrow> getNumOfChunks sz maxMessageSize = Some 1"
  by (auto simp: getNumOfChunks_def)

lemma getNumOfChunks_positive:
  assumes "3 \<le> maxMessageSize" and "getNumOfChunks sz maxMessageSize = Some n"
  shows "1 \<le> sint n"
proof (cases "maxMessageSize \<le> sz")
  case False
  with assms show ?thesis by (auto simp: getNumOfChunks_def)
next
  case True
  from assms(1) have m3: "3 \<le> uint maxMessageSize"
    by (simp add: word_le_def)
  then have m0: "maxMessageSize \<noteq> 0" by auto
  from True have le: "uint maxMessageSize \<le> uint sz" by (simp add: word_le_def)
  have szb: "uint sz < 4294967296" using uint_lt2p [of sz] by simp
  let ?q = "uint sz div uint maxMessageSize"
  have q0: "0 \<le> ?q" using m3 by (simp add: pos_imp_zdiv_nonneg_iff)
  have "0 < ?q" using le m3 by (simp add: pos_imp_zdiv_pos_iff)
  then have q1: "1 \<le> ?q" by linarith
  have split: "?q * uint maxMessageSize + uint sz mod uint maxMessageSize = uint sz"
    by (rule div_mult_mod_eq)
  have "0 \<le> uint sz mod uint maxMessageSize" using m3 by simp
  then have below: "?q * uint maxMessageSize \<le> uint sz" using split by linarith
  have "?q * 3 \<le> ?q * uint maxMessageSize" using m3 q0 by (intro mult_left_mono) simp_all
  also note below
  finally have qb: "?q < 1431655766" using szb by linarith
  have uq: "uint (sz div maxMessageSize) = ?q" by (simp add: uint_div)
  have n: "n = sz div maxMessageSize + (if sz mod maxMessageSize = 0 then 0 else 1)"
    using assms(2) True m0 by (simp add: getNumOfChunks_def checked_div_def checked_mod_def)
  have un: "uint n = ?q + (if sz mod maxMessageSize = 0 then 0 else 1)"
  proof (cases "sz mod maxMessageSize = 0")
    case True
    then show ?thesis by (simp add: n uq)
  next
    case False
    have "uint (sz div maxMessageSize + 1) = (?q + 1) mod 4294967296"
      by (simp add: uint_word_ariths uq)
    also have "\<dots> = ?q + 1" using qb q0 by simp
    finally show ?thesis using False by (simp add: n)
  qed
  have nb: "uint n < 2147483648" "1 \<le> uint n"
    using un qb q1 by (auto split: if_splits)
  have "signed_take_bit 31 (uint n) = uint n"
    using nb by (intro signed_take_bit_int_eq_self) simp_all
  then have "sint n = uint n"
    by (simp add: sint_uint)
  with nb(2) show ?thesis by simp
qed

text \<open>
  C10. \<open>getNumOfChunks\<close> never divides by zero, but the chunk count is returned as an
  \<open>int\<close>: for a size that is the largest \<open>uint32_t\<close> and a per-chunk limit of one
  byte the quotient 4294967295 comes back as the \<open>int\<close> -1, which is not at least 1.
\<close>

theorem getNumOfChunks_wraps:
  "map_option sint (getNumOfChunks 4294967295 1) = Some (- 1)"
  by (simp add: getNumOfChunks_def checked_div_def checked_mod_def)

lemma getNumOfChunks_wraps_2:
  "map_option sint (getNumOfChunks 4294967295 2) = Some (- 2147483648)"
  by (simp add: getNumOfChunks_def checked_div_def checked_mod_def)

section \<open>Properties of the connection\<close>

text \<open>
  C5, as amended. A CONNECTED frame that has a server version and carries
  \<open>max_message_size\<close> stores the advertised size: afterwards \<open>getMaxMessageSize\<close>
  returns that size, whatever the value before (the last write wins), so the value does
  not go down exactly when the advertised size is at least the value before.
\<close>

theorem handlePulsarConnected_last_write_wins:
  assumes "server_version cmdConnected \<noteq> None"
    and "max_message_size cmdConnected = Some m"
  shows "getMaxMessageSize (handlePulsarConnected dflt cmdConnected (g, c)) = sint m
    \<and> (getMaxMessageSize (g, c) \<le> getMaxMessageSize (handlePulsarConnected dflt cmdConnected (g, c))
        \<longleftrightarrow> sint g \<le> sint m)"
  using assms by (auto simp: handlePulsarConnected_def getMaxMessageSize_def Let_def)

theorem handlePulsarConnected_last_write_wins_witness:
  "server_version \<lparr>server_version = Some ''2.10.2'', protocol_version = 19,
                   max_message_size = Some 1024\<rparr> \<noteq> None
   \<and> getMaxMessageSize
       (handlePulsarConnected ResultConnectError
          \<lparr>server_version = Some ''2.10.2'', protocol_version = 19, max_message_size = Some 1024\<rparr>
          (5242880, newClientConnection\<lparr>cnx_state := CnxTcpConnected\<rparr>)) = 1024"
  using handlePulsarConnected_last_write_wins
    [of "\<lparr>server_version = Some ''2.10.2'', protocol_version = 19, max_message_size = Some 1024\<rparr>"
        1024 ResultConnectError 5242880 "newClientConnection\<lparr>cnx_state := CnxTcpConnected\<rparr>"]
  by simp

text \<open>
  C5, as stated, fails: with 5242880 stored, a broker that advertises 1024 brings the
  value down.
\<close>

theorem maxMessageSize_shrinks:
  "getMaxMessageSize
     (handlePulsarConnected ResultConnectError
        \<lparr>server_version = Some ''2.10.2'', protocol_version = 19, max_message_size = Some 1024\<rparr>
        (5242880, newClientConnection\<lparr>cnx_state := CnxTcpConnected\<rparr>))
   < getMaxMessageSize (5242880, newClientConnection\<lparr>cnx_state := CnxTcpConnected\<rparr>)"
  by (simp add: handlePulsarConnected_def getMaxMessageSize_def Let_def newClientConnection_def
      isClosed_def)

subsection \<open>Writes\<close>

lemma accepted_sendCommand:
  "writes_ok c \<Longrightarrow> accepted (sendCommand cmd c) = accepted c @ [cmd] \<and> writes_ok (sendCommand cmd c)"
  by (auto simp: writes_ok_def accepted_def sendCommand_def split: if_splits)

lemma accepted_cnx_sendMessage:
  "writes_ok c \<Longrightarrow>
   accepted (cnx_sendMessage args c) = accepted c @ [OutSend args]
   \<and> writes_ok (cnx_sendMessage args c)"
  by (auto simp: writes_ok_def accepted_def cnx_sendMessage_def split: if_splits)

lemma sendPendingCommands_accepted:
  assumes "writes_ok c" and "0 < pendingWriteOperations c"
  shows "\<exists>c'. sendPendingCommands c = Some c' \<and> accepted c' = accepted c \<and> writes_ok c'"
proof (cases "pendingWriteBuffers c")
  case Nil
  with assms show ?thesis
    by (auto simp: sendPendingCommands_def writes_ok_def accepted_def Let_def split: if_splits)
next
  case (Cons b bs)
  with assms show ?thesis
    by (auto simp: sendPendingCommands_def writes_ok_def accepted_def Let_def split: if_splits)
qed

lemma sendCommand_fields [simp]:
  "cnx_state (sendCommand cmd c) = cnx_state c"
  "havePendingPingRequest (sendCommand cmd c) = havePendingPingRequest c"
  "keepAliveTimer (sendCommand cmd c) = keepAliveTimer c"
  "closeResults (sendCommand cmd c) = closeResults c"
  "pendingRequests (sendCommand cmd c) = pendingRequests c"
  "requestObjects (sendCommand cmd c) = requestObjects c"
  "producers (sendCommand cmd c) = producers c"
  by (simp_all add: sendCommand_def)

lemma close_fields:
  "\<not> isClosed c \<Longrightarrow> closeResults (close r c) = closeResults c @ [r]"
  "\<not> isClosed c \<Longrightarrow> cnx_state (close r c) = CnxDisconnected"
  "isClosed c \<Longrightarrow> close r c = c"
  "isClosed (close r c)"
  "accepted (close r c) = accepted c"
  "havePendingPingRequest (close r c) = havePendingPingRequest c"
  by (simp_all add: close_def isClosed_def accepted_def)

subsection \<open>Keep-alive\<close>

lemma close_writes:
  "wire (close r c) = wire c"
  "pendingWriteBuffers (close r c) = pendingWriteBuffers c"
  by (simp_all add: close_def)

lemma keepAlive_first:
  assumes "cnx_state c = CnxReady" "\<not> havePendingPingRequest c" "writes_ok c"
  shows "accepted (handleKeepAliveTimeout dflt c) = accepted c @ [OutPing]"
    and "havePendingPingRequest (handleKeepAliveTimeout dflt c)"
    and "cnx_state (handleKeepAliveTimeout dflt c) = CnxReady"
    and "closeResults (handleKeepAliveTimeout dflt c) = closeResults c"
  using assms accepted_sendCommand [of "c\<lparr>havePendingPingRequest := True\<rparr>" OutPing]
  by (simp_all add: handleKeepAliveTimeout_def isClosed_def Let_def accepted_def writes_ok_def)

lemma keepAlive_second:
  assumes "cnx_state c = CnxReady" "havePendingPingRequest c"
  shows "handleKeepAliveTimeout dflt c = close dflt c"
  using assms by (simp add: handleKeepAliveTimeout_def isClosed_def)

lemma keepAlive_closed: "isClosed c \<Longrightarrow> handleKeepAliveTimeout dflt c = c"
  by (simp add: handleKeepAliveTimeout_def)

lemma keepAlive_clear:
  assumes "\<not> havePendingPingRequest c"
  shows "closeResults (handleKeepAliveTimeout dflt c) = closeResults c"
  using assms by (simp add: handleKeepAliveTimeout_def Let_def)

lemma handleReadyCommand_flag:
  "havePendingPingRequest (handleReadyCommand dflt cmd c) = havePendingPingRequest c"
  by (cases cmd)
     (simp_all add: handleProducerSuccess_def close_fields split: option.splits)

text \<open>
  C7, as amended. On a Ready connection with no ping outstanding, the first firing of
  the keep-alive timer sends exactly one PING and sets the pending-ping flag; if no
  frame arrives, the second firing calls \<open>close()\<close> once, with the default result of
  \<open>close\<close> (the parameter \<open>dflt\<close>, not \<open>ResultRetryable\<close>), and a third firing
  does nothing. A frame with a command other than MESSAGE that arrives between the
  firings and is handled in Ready state (by \<open>handleIncomingCommand\<close>) clears the
  flag, so that the next firing closes nothing. The handlers of the inner switch are
  any functions that leave the flag alone, as the ones of the source do.
\<close>

theorem keepAlive_two_firings:
  assumes rdy: "cnx_state c = CnxReady"
    and noping: "\<not> havePendingPingRequest c"
    and wr: "writes_ok c"
    and hs: "\<forall>cmd c'. havePendingPingRequest (handlers cmd c') = havePendingPingRequest c'"
    and c1: "c1 = handleKeepAliveTimeout dflt c"
    and c2: "c2 = handleKeepAliveTimeout dflt c1"
    and c1': "c1' = snd (processFrame dflt handlers messageReceived (CommandFrame incomingCmd) (g, c1))"
  shows "wire c1 @ pendingWriteBuffers c1 = wire c @ pendingWriteBuffers c @ [OutPing]
       \<and> havePendingPingRequest c1
       \<and> cnx_state c1 = CnxReady
       \<and> closeResults c1 = closeResults c
       \<and> closeResults c2 = closeResults c @ [dflt]
       \<and> cnx_state c2 = CnxDisconnected
       \<and> wire c2 @ pendingWriteBuffers c2 = wire c1 @ pendingWriteBuffers c1
       \<and> handleKeepAliveTimeout dflt c2 = c2
       \<and> \<not> havePendingPingRequest c1'
       \<and> closeResults (handleKeepAliveTimeout dflt c1') = closeResults c1'"
proof -
  note first = keepAlive_first [OF rdy noping wr, of dflt, folded c1]
  have second: "c2 = close dflt c1"
    using first by (simp add: c2 keepAlive_second)
  have open1: "\<not> isClosed c1"
    using first by (simp add: isClosed_def)
  have third: "handleKeepAliveTimeout dflt c2 = c2"
    by (simp add: second keepAlive_closed close_fields)
  have cleared: "\<not> havePendingPingRequest c1'"
    using first hs by (simp add: c1' processFrame_def handleIncomingCommand_def)
  from first second open1 third cleared show ?thesis
    by (simp add: close_fields close_writes keepAlive_clear accepted_def)
qed

theorem keepAlive_two_firings_witness:
  "cnx_state readyConnection = CnxReady
   \<and> \<not> havePendingPingRequest readyConnection
   \<and> writes_ok readyConnection
   \<and> wire (handleKeepAliveTimeout ResultConnectError readyConnection) = [OutPing]
   \<and> closeResults
       (handleKeepAliveTimeout ResultConnectError
          (handleKeepAliveTimeout ResultConnectError readyConnection)) = [ResultConnectError]
   \<and> closeResults
       (handleKeepAliveTimeout ResultConnectError
          (snd (processFrame ResultConnectError (handleReadyCommand ResultConnectError)
                  (\<lambda>consumer_id c. c) (CommandFrame CmdPong)
                  (5242880, handleKeepAliveTimeout ResultConnectError readyConnection))))
       = []"
proof -
  have a: "cnx_state readyConnection = CnxReady" "\<not> havePendingPingRequest readyConnection"
    "writes_ok readyConnection" "wire readyConnection = []"
    "pendingWriteBuffers readyConnection = []" "pendingWriteOperations readyConnection = 0"
    "closeResults readyConnection = []"
    by (simp_all add: readyConnection_def newClientConnection_def writes_ok_def)
  have h: "\<forall>cmd c'. havePendingPingRequest (handleReadyCommand ResultConnectError cmd c')
                     = havePendingPingRequest c'"
    by (simp add: handleReadyCommand_flag)
  have w: "wire (handleKeepAliveTimeout ResultConnectError readyConnection) = [OutPing]"
    "pendingWriteBuffers (handleKeepAliveTimeout ResultConnectError readyConnection) = []"
    using a by (simp_all add: handleKeepAliveTimeout_def isClosed_def Let_def sendCommand_def)
  have cr: "closeResults (snd (processFrame ResultConnectError
                (handleReadyCommand ResultConnectError) (\<lambda>consumer_id c. c) (CommandFrame CmdPong)
                (5242880, handleKeepAliveTimeout ResultConnectError readyConnection))) = []"
    using a keepAlive_first [of readyConnection ResultConnectError]
    by (simp add: processFrame_def handleIncomingCommand_def)
  from a w cr keepAlive_two_firings [OF a(1) a(2) a(3) h refl refl refl,
      where dflt = ResultConnectError and messageReceived = "\<lambda>consumer_id c. c"
        and incomingCmd = CmdPong and g = 5242880]
  show ?thesis by simp
qed

text \<open>
  C7, as stated, fails in two places. It names the result: \<open>handleKeepAliveTimeout\<close>
  calls \<open>close()\<close>, not \<open>close(ResultRetryable)\<close>; the source passes
  \<open>ResultRetryable\<close> where it means it and calls \<open>close()\<close> for what "is not
  retryable" (\<open>handleTcpConnected\<close>), and with the default \<open>ResultConnectError\<close> the
  connection is closed with that result. And it says any inbound frame: a MESSAGE frame
  goes from \<open>processIncomingBuffer\<close> to \<open>handleIncomingMessage\<close>, which leaves the
  flag alone, so that with only such a frame between the firings (here for a consumer
  that is not registered) the second firing closes the connection all the same.
\<close>

theorem keepAlive_closes_with_default:
  "closeResults
     (handleKeepAliveTimeout ResultConnectError
        (handleKeepAliveTimeout ResultConnectError readyConnection)) \<noteq> [ResultRetryable]
   \<and> closeResults
       (handleKeepAliveTimeout ResultConnectError
          (snd (processFrame ResultConnectError (handleReadyCommand ResultConnectError)
                  (\<lambda>consumer_id c. c) (MessageFrame 9 True True)
                  (5242880, handleKeepAliveTimeout ResultConnectError readyConnection))))
       = [ResultConnectError]"
  by (simp add: handleKeepAliveTimeout_def isClosed_def readyConnection_def
      newClientConnection_def sendCommand_def close_def Let_def processFrame_def
      handleIncomingMessage_def)

subsection \<open>Pending requests\<close>

lemma map_of_map_insert:
  "map_of m k = None \<Longrightarrow> map_of (map_insert k v m) k = Some v"
  by (simp add: map_insert_def map_add_def)

lemma map_of_map_erase: "map_of (map_erase k m) k = None"
  by (induction m) (auto simp: map_erase_def)

text \<open>
  C8. For a request that \<open>sendRequestWithId\<close> registers under a fresh id on an open
  connection: PRODUCER_SUCCESS with \<open>producer_ready = false\<close> sets the has-response
  flag and leaves the entry registered and the promise pending; a later PRODUCER_SUCCESS
  with \<open>producer_ready = true\<close> removes the entry, fulfils the promise with the
  response data (the producer name, the last sequence id, the schema version, empty
  when absent, and the topic epoch of the response) and cancels the timer; the
  deadline timer, when it fires, fails the promise with
  \<open>ResultTimeout\<close> if the flag is not set and does nothing if it is set (or if the
  timer was cancelled).
\<close>

theorem producer_success_then_timeout:
  assumes open_cnx: "\<not> isClosed c"
    and fresh: "map_of (pendingRequests c) requestId = None"
    and sent: "sendRequestWithId cmd requestId c = (ob, c1)"
    and queued: "ps_request_id queued = requestId" "\<not> ps_producer_ready queued"
    and ready: "ps_request_id ready = requestId" "ps_producer_ready ready"
    and c2: "c2 = handleProducerSuccess queued c1"
    and c3: "c3 = handleProducerSuccess ready c2"
  shows "map_of (pendingRequests c1) requestId = Some ob
       \<and> prd_promise (requestObjects c1 ob) = PromisePending
       \<and> \<not> hasGotResponse (requestObjects c1 ob)
       \<and> hasGotResponse (requestObjects c2 ob)
       \<and> map_of (pendingRequests c2) requestId = Some ob
       \<and> prd_promise (requestObjects c2 ob) = PromisePending
       \<and> map_of (pendingRequests c3) requestId = None
       \<and> prd_promise (requestObjects c3 ob)
           = PromiseValue
               \<lparr>rd_producerName = ps_producer_name ready,
                rd_lastSequenceId = ps_last_sequence_id ready,
                rd_schemaVersion =
                  (case ps_schema_version ready of Some v \<Rightarrow> v | None \<Rightarrow> []),
                rd_topicEpoch = ps_topic_epoch ready\<rparr>
       \<and> prd_timer (requestObjects c3 ob) = TimerCancelled
       \<and> prd_promise (requestObjects (handleRequestTimeout Success ob c1) ob)
           = PromiseFailed ResultTimeout
       \<and> handleRequestTimeout Success ob c2 = c2
       \<and> handleRequestTimeout OperationAborted ob c1 = c1"
proof -
  from sent open_cnx have ob: "ob = nextObject c"
    and c1: "c1 = sendCommand cmd
               (c\<lparr>nextObject := Suc ob,
                  requestObjects := (requestObjects c)
                    (ob := \<lparr>prd_timer = TimerArmed, prd_promise = PromisePending,
                            hasGotResponse = False\<rparr>),
                  pendingRequests := map_insert requestId ob (pendingRequests c)\<rparr>)"
    by (auto simp: sendRequestWithId_def Let_def)
  have r1: "map_of (pendingRequests c1) requestId = Some ob"
    using fresh by (simp add: c1 map_of_map_insert)
  have p1: "prd_promise (requestObjects c1 ob) = PromisePending"
    and f1: "\<not> hasGotResponse (requestObjects c1 ob)"
    by (simp_all add: c1)
  have c2': "c2 = c1\<lparr>requestObjects := (requestObjects c1)
                (ob := (requestObjects c1 ob)\<lparr>hasGotResponse := True\<rparr>)\<rparr>"
    using r1 queued by (simp add: c2 handleProducerSuccess_def)
  have r2: "map_of (pendingRequests c2) requestId = Some ob"
    and p2: "prd_promise (requestObjects c2 ob) = PromisePending"
    and f2: "hasGotResponse (requestObjects c2 ob)"
    using r1 p1 by (simp_all add: c2')
  have r3: "map_of (pendingRequests c3) requestId = None"
    and p3: "prd_promise (requestObjects c3 ob)
           = PromiseValue
               \<lparr>rd_producerName = ps_producer_name ready,
                rd_lastSequenceId = ps_last_sequence_id ready,
                rd_schemaVersion =
                  (case ps_schema_version ready of Some v \<Rightarrow> v | None \<Rightarrow> []),
                rd_topicEpoch = ps_topic_epoch ready\<rparr>"
    and t3c: "prd_timer (requestObjects c3 ob) = TimerCancelled"
    using r2 p2 ready
    by (simp_all add: c3 handleProducerSuccess_def map_of_map_erase setValue_def isComplete_def
        responseData_def)
  have t1: "prd_promise (requestObjects (handleRequestTimeout Success ob c1) ob)
           = PromiseFailed ResultTimeout"
    using p1 f1 by (simp add: handleRequestTimeout_def setFailed_def isComplete_def)
  have t2: "handleRequestTimeout Success ob c2 = c2"
    using f2 by (simp add: handleRequestTimeout_def)
  have t3: "handleRequestTimeout OperationAborted ob c1 = c1"
    by (simp add: handleRequestTimeout_def)
  from r1 p1 f1 r2 p2 f2 r3 p3 t3c t1 t2 t3 show ?thesis by simp
qed

theorem producer_success_then_timeout_witness:
  "\<not> isClosed readyConnection
   \<and> map_of (pendingRequests readyConnection) 4 = None
   \<and> fst (sendRequestWithId (OutRequest 4) 4 readyConnection) = 0
   \<and> prd_promise
       (requestObjects
          (handleProducerSuccess
             \<lparr>ps_request_id = 4, ps_producer_name = ''standalone-0-7'', ps_last_sequence_id = - 1,
              ps_schema_version = None, ps_topic_epoch = None, ps_producer_ready = False\<rparr>
             (snd (sendRequestWithId (OutRequest 4) 4 readyConnection))) 0) = PromisePending
   \<and> prd_promise
       (requestObjects
          (handleProducerSuccess
             \<lparr>ps_request_id = 4, ps_producer_name = ''standalone-0-7'', ps_last_sequence_id = - 1,
              ps_schema_version = None, ps_topic_epoch = None, ps_producer_ready = True\<rparr>
             (handleProducerSuccess
                \<lparr>ps_request_id = 4, ps_producer_name = ''standalone-0-7'', ps_last_sequence_id = - 1,
                 ps_schema_version = None, ps_topic_epoch = None, ps_producer_ready = False\<rparr>
                (snd (sendRequestWithId (OutRequest 4) 4 readyConnection)))) 0)
       = PromiseValue \<lparr>rd_producerName = ''standalone-0-7'', rd_lastSequenceId = - 1,
                       rd_schemaVersion = [], rd_topicEpoch = None\<rparr>
   \<and> prd_promise
       (requestObjects
          (handleRequestTimeout Success 0 (snd (sendRequestWithId (OutRequest 4) 4 readyConnection)))
          0) = PromiseFailed ResultTimeout"
proof -
  have a: "\<not> isClosed readyConnection" "map_of (pendingRequests readyConnection) 4 = None"
    by (simp_all add: readyConnection_def newClientConnection_def isClosed_def)
  have b: "sendRequestWithId (OutRequest 4) 4 readyConnection
             = (0, snd (sendRequestWithId (OutRequest 4) 4 readyConnection))"
    by (simp add: sendRequestWithId_def Let_def readyConnection_def newClientConnection_def
        isClosed_def)
  have b': "fst (sendRequestWithId (OutRequest 4) 4 readyConnection) = 0"
    by (simp add: sendRequestWithId_def Let_def readyConnection_def newClientConnection_def
        isClosed_def)
  from a b' producer_success_then_timeout [OF a b, where
      queued = "\<lparr>ps_request_id = 4, ps_producer_name = ''standalone-0-7'', ps_last_sequence_id = - 1,
              ps_schema_version = None, ps_topic_epoch = None, ps_producer_ready = False\<rparr>"
      and ready = "\<lparr>ps_request_id = 4, ps_producer_name = ''standalone-0-7'', ps_last_sequence_id = - 1,
              ps_schema_version = None, ps_topic_epoch = None, ps_producer_ready = True\<rparr>",
      OF _ _ _ _ refl refl]
  show ?thesis by simp
qed

lemma request_timeout_iff:
  assumes "prd_promise (requestObjects c ob) = PromisePending"
  shows "prd_promise (requestObjects (handleRequestTimeout Success ob c) ob)
           = PromiseFailed ResultTimeout
         \<longleftrightarrow> \<not> hasGotResponse (requestObjects c ob)"
  using assms by (simp add: handleRequestTimeout_def setFailed_def isComplete_def)

section \<open>Properties of the producer\<close>

lemma complete_simps [simp]:
  "fst (complete op r mid p) = onComplete op"
  "snd (complete op r mid p) = p\<lparr>completions := completions p @ [(op, r, mid)]\<rparr>"
  by (simp_all add: complete_def)

text \<open>
  C1, as amended. With a queue whose head op has result Ok and sequence id E:
  an ack for a larger sequence id returns false, leaving the producer as it was, and
  the caller, \<open>handleSendReceipt\<close>, then closes the connection; an ack for a smaller
  id returns true, leaving the producer as it was; an ack for E releases one permit
  per \<open>messagesCount\<close> and \<open>messagesSize\<close> bytes, sets
  \<open>lastSequenceIdPublished\<close> to \<open>seq + messagesCount - 1\<close>, pops exactly the head
  and completes it with Ok and the partition-augmented id, or, for the last chunk of a
  chunked message, with the composite of the first chunk's id and the
  partition-augmented id; it returns true when the callback returns or throws a
  \<open>std::exception\<close>.
\<close>

theorem ackReceived_head:
  assumes queue: "pendingMessagesQueue p = op # rest"
    and ok: "op_result op = ResultOk"
  shows "(sa_sequenceId (sendArgs op) < sequenceId \<longrightarrow>
            ackReceived sequenceId raw p = (Inr False, p)
          \<and> (\<forall>c. map_of (producers c) (producerId p) = Some (producerId p)
                   \<and> cnx_state c \<noteq> CnxDisconnected \<longrightarrow>
                 fst (handleSendReceipt dflt
                        \<lparr>sr_producer_id = producerId p, sr_sequence_id = sequenceId,
                         sr_message_id = raw\<rparr> (c, p)) = None
               \<and> cnx_state (fst (snd (handleSendReceipt dflt
                        \<lparr>sr_producer_id = producerId p, sr_sequence_id = sequenceId,
                         sr_message_id = raw\<rparr> (c, p)))) = CnxDisconnected
               \<and> closeResults (fst (snd (handleSendReceipt dflt
                        \<lparr>sr_producer_id = producerId p, sr_sequence_id = sequenceId,
                         sr_message_id = raw\<rparr> (c, p)))) = closeResults c @ [dflt]))
       \<and> (sequenceId < sa_sequenceId (sendArgs op) \<longrightarrow>
            ackReceived sequenceId raw p = (Inr True, p))
       \<and> (sequenceId = sa_sequenceId (sendArgs op) \<longrightarrow>
            semaphore (snd (ackReceived sequenceId raw p))
              = map_option (\<lambda>s. s\<lparr>sem_usage := sem_usage s - int (messagesCount op)\<rparr>)
                  (semaphore p)
          \<and> memoryLimitController (snd (ackReceived sequenceId raw p))
              = (memoryLimitController p)
                  \<lparr>mem_usage := mem_usage (memoryLimitController p) - int (messagesSize op)\<rparr>
          \<and> lastSequenceIdPublished (snd (ackReceived sequenceId raw p))
              = sequenceId + of_nat (messagesCount op) - 1
          \<and> pendingMessagesQueue (snd (ackReceived sequenceId raw p)) = rest
          \<and> completions (snd (ackReceived sequenceId raw p))
              = completions p @
                [(op, ResultOk,
                  (case chunkedMessageId op of
                     None \<Rightarrow> PlainMessageId (raw\<lparr>mid_partition := partition_ix p\<rparr>)
                   | Some h \<Rightarrow>
                       if chunkId op \<noteq> 0 \<and> chunkId op = numChunks op - 1
                       then ChunkMessageId (firstChunkMsgId (chunkedMessageIds p h))
                              (raw\<lparr>mid_partition := partition_ix p\<rparr>)
                       else PlainMessageId (raw\<lparr>mid_partition := partition_ix p\<rparr>)))]
          \<and> (onComplete op \<noteq> Some ForeignThrowable \<longrightarrow>
                fst (ackReceived sequenceId raw p) = Inr True))"
proof (intro conjI impI allI)
  assume gt: "sa_sequenceId (sendArgs op) < sequenceId"
  then show nack: "ackReceived sequenceId raw p = (Inr False, p)"
    using queue ok by (simp add: ackReceived_def Let_def)
  fix c :: ClientConnection
  assume reg: "map_of (producers c) (producerId p) = Some (producerId p)
                   \<and> cnx_state c \<noteq> CnxDisconnected"
  let ?r = "handleSendReceipt dflt
              \<lparr>sr_producer_id = producerId p, sr_sequence_id = sequenceId, sr_message_id = raw\<rparr>
              (c, p)"
  have run: "?r = (None, close dflt c, p)"
    using reg nack by (simp add: handleSendReceipt_def Let_def)
  show "fst ?r = None" by (simp add: run)
  show "cnx_state (fst (snd ?r)) = CnxDisconnected"
    using reg by (simp add: run close_def isClosed_def)
  show "closeResults (fst (snd ?r)) = closeResults c @ [dflt]"
    using reg by (simp add: run close_def isClosed_def)
next
  assume "sequenceId < sa_sequenceId (sendArgs op)"
  then show "ackReceived sequenceId raw p = (Inr True, p)"
    using queue ok by (simp add: ackReceived_def Let_def)
next
  assume eq: "sequenceId = sa_sequenceId (sendArgs op)"
  obtain fin store where am:
    "ackMessageId op (raw\<lparr>mid_partition := partition_ix p\<rparr>) (chunkedMessageIds p) = (fin, store)"
    by (cases "ackMessageId op (raw\<lparr>mid_partition := partition_ix p\<rparr>) (chunkedMessageIds p)")
  have fin: "fin = (case chunkedMessageId op of
                     None \<Rightarrow> PlainMessageId (raw\<lparr>mid_partition := partition_ix p\<rparr>)
                   | Some h \<Rightarrow>
                       if chunkId op \<noteq> 0 \<and> chunkId op = numChunks op - 1
                       then ChunkMessageId (firstChunkMsgId (chunkedMessageIds p h))
                              (raw\<lparr>mid_partition := partition_ix p\<rparr>)
                       else PlainMessageId (raw\<lparr>mid_partition := partition_ix p\<rparr>))"
    using am by (auto simp: ackMessageId_def build_def split: option.splits if_splits)
  let ?p' = "(releaseSemaphoreForSendOp op (p\<lparr>chunkedMessageIds := store\<rparr>))
         \<lparr>lastSequenceIdPublished := sequenceId + of_nat (messagesCount op) - 1,
          pendingMessagesQueue := rest,
          completions := completions p @ [(op, ResultOk, fin)]\<rparr>"
  have run: "snd (ackReceived sequenceId raw p) = ?p'"
    using queue ok eq am
    by (cases "onComplete op")
       (auto simp: ackReceived_def Let_def complete_def releaseSemaphoreForSendOp_def
             split: Thrown.splits)
  have ret: "onComplete op \<noteq> Some ForeignThrowable \<Longrightarrow>
             fst (ackReceived sequenceId raw p) = Inr True"
    using queue ok eq am
    by (cases "onComplete op")
       (auto simp: ackReceived_def Let_def complete_def split: Thrown.splits)
  show "semaphore (snd (ackReceived sequenceId raw p))
              = map_option (\<lambda>s. s\<lparr>sem_usage := sem_usage s - int (messagesCount op)\<rparr>)
                  (semaphore p)"
    by (cases "semaphore p") (simp_all add: run releaseSemaphoreForSendOp_def sem_release_def)
  show "memoryLimitController (snd (ackReceived sequenceId raw p))
              = (memoryLimitController p)
                  \<lparr>mem_usage := mem_usage (memoryLimitController p) - int (messagesSize op)\<rparr>"
    by (simp add: run releaseSemaphoreForSendOp_def releaseMemory_def)
  show "lastSequenceIdPublished (snd (ackReceived sequenceId raw p))
              = sequenceId + of_nat (messagesCount op) - 1"
    by (simp add: run)
  show "pendingMessagesQueue (snd (ackReceived sequenceId raw p)) = rest"
    by (simp add: run)
  show "completions (snd (ackReceived sequenceId raw p))
              = completions p @
                [(op, ResultOk,
                  (case chunkedMessageId op of
                     None \<Rightarrow> PlainMessageId (raw\<lparr>mid_partition := partition_ix p\<rparr>)
                   | Some h \<Rightarrow>
                       if chunkId op \<noteq> 0 \<and> chunkId op = numChunks op - 1
                       then ChunkMessageId (firstChunkMsgId (chunkedMessageIds p h))
                              (raw\<lparr>mid_partition := partition_ix p\<rparr>)
                       else PlainMessageId (raw\<lparr>mid_partition := partition_ix p\<rparr>)))]"
    by (simp add: run fin)
  assume "onComplete op \<noteq> Some ForeignThrowable"
  then show "fst (ackReceived sequenceId raw p) = Inr True" by (rule ret)
qed

theorem ackReceived_head_witness:
  "pendingMessagesQueue (producerWith [sendOp 5 0 None, sendOp 6 0 None])
     = sendOp 5 0 None # [sendOp 6 0 None]
   \<and> op_result (sendOp 5 0 None) = ResultOk
   \<and> ackReceived 9 \<lparr>ledgerId = 1, entryId = 0, mid_partition = - 1, batchIndex = - 1\<rparr>
        (producerWith [sendOp 5 0 None, sendOp 6 0 None])
       = (Inr False, producerWith [sendOp 5 0 None, sendOp 6 0 None])
   \<and> closeResults
       (fst (snd (handleSendReceipt ResultConnectError
          \<lparr>sr_producer_id = 7, sr_sequence_id = 9,
           sr_message_id = \<lparr>ledgerId = 1, entryId = 0, mid_partition = - 1, batchIndex = - 1\<rparr>\<rparr>
          (readyConnection\<lparr>producers := [(7, 7)]\<rparr>,
           producerWith [sendOp 5 0 None, sendOp 6 0 None]))))
       = [ResultConnectError]
   \<and> ackReceived 3 \<lparr>ledgerId = 1, entryId = 0, mid_partition = - 1, batchIndex = - 1\<rparr>
        (producerWith [sendOp 5 0 None, sendOp 6 0 None])
       = (Inr True, producerWith [sendOp 5 0 None, sendOp 6 0 None])
   \<and> fst (ackReceived 5 \<lparr>ledgerId = 1, entryId = 0, mid_partition = - 1, batchIndex = - 1\<rparr>
        (producerWith [sendOp 5 0 None, sendOp 6 0 None])) = Inr True
   \<and> pendingMessagesQueue
       (snd (ackReceived 5 \<lparr>ledgerId = 1, entryId = 0, mid_partition = - 1, batchIndex = - 1\<rparr>
          (producerWith [sendOp 5 0 None, sendOp 6 0 None]))) = [sendOp 6 0 None]
   \<and> semaphore
       (snd (ackReceived 5 \<lparr>ledgerId = 1, entryId = 0, mid_partition = - 1, batchIndex = - 1\<rparr>
          (producerWith [sendOp 5 0 None, sendOp 6 0 None])))
       = Some \<lparr>sem_limit = 10, sem_usage = 1, sem_closed = False\<rparr>
   \<and> lastSequenceIdPublished
       (snd (ackReceived 5 \<lparr>ledgerId = 1, entryId = 0, mid_partition = - 1, batchIndex = - 1\<rparr>
          (producerWith [sendOp 5 0 None, sendOp 6 0 None]))) = 5
   \<and> completions
       (snd (ackReceived 5 \<lparr>ledgerId = 1, entryId = 0, mid_partition = - 1, batchIndex = - 1\<rparr>
          (producerWith [sendOp 5 0 None, sendOp 6 0 None])))
       = [(sendOp 5 0 None, ResultOk,
           PlainMessageId \<lparr>ledgerId = 1, entryId = 0, mid_partition = 3, batchIndex = - 1\<rparr>)]"
proof -
  let ?p = "producerWith [sendOp 5 0 None, sendOp 6 0 None]"
  let ?raw = "\<lparr>ledgerId = 1, entryId = 0, mid_partition = - 1, batchIndex = - 1\<rparr>"
  let ?c = "readyConnection\<lparr>producers := [(7, 7)]\<rparr>"
  have q: "pendingMessagesQueue ?p = sendOp 5 0 None # [sendOp 6 0 None]"
    by (simp add: producerWith_def)
  have ok: "op_result (sendOp 5 0 None) = ResultOk"
    by (simp add: sendOp_def)
  have f: "sa_sequenceId (sendArgs (sendOp 5 0 None)) = 5" "onComplete (sendOp 5 0 None) = None"
    "messagesCount (sendOp 5 0 None) = 1" "chunkedMessageId (sendOp 5 0 None) = None"
    "messagesCount (sendOp 6 0 None) = 1"
    by (simp_all add: sendOp_def)
  have p: "partition_ix ?p = 3" "completions ?p = []" "producerId ?p = 7"
    "semaphore ?p = Some \<lparr>sem_limit = 10, sem_usage = 2, sem_closed = False\<rparr>"
    by (simp_all add: producerWith_def newProducerImpl_def f)
  have c: "map_of (producers ?c) 7 = Some 7" "cnx_state ?c \<noteq> CnxDisconnected"
    "closeResults ?c = []"
    by (simp_all add: readyConnection_def newClientConnection_def)
  from q ok f p c
    ackReceived_head [OF q ok, where sequenceId = 9 and raw = ?raw and dflt = ResultConnectError]
    ackReceived_head [OF q ok, where sequenceId = 3 and raw = ?raw and dflt = ResultConnectError]
    ackReceived_head [OF q ok, where sequenceId = 5 and raw = ?raw and dflt = ResultConnectError]
  show ?thesis by simp
qed

text \<open>
  C1, as stated, fails for the last chunk of a chunked message: the op is completed
  with the composite id, not with the partition-augmented id of the receipt.
\<close>

theorem ackReceived_last_chunk_composite:
  "completions
     (snd (ackReceived 5 \<lparr>ledgerId = 1, entryId = 8, mid_partition = - 1, batchIndex = - 1\<rparr>
        (producerWith [(sendOp 5 0 None)\<lparr>chunkId := 1, numChunks := 2,
                                         chunkedMessageId := Some 0\<rparr>])))
   \<noteq> [((sendOp 5 0 None)\<lparr>chunkId := 1, numChunks := 2, chunkedMessageId := Some 0\<rparr>, ResultOk,
        PlainMessageId \<lparr>ledgerId = 1, entryId = 8, mid_partition = 3, batchIndex = - 1\<rparr>)]"
  by (simp add: ackReceived_def ackMessageId_def build_def complete_def producerWith_def
      newProducerImpl_def sendOp_def releaseSemaphoreForSendOp_def Let_def)

subsection \<open>Example states\<close>

lemma producerWith_fields:
  "state (producerWith ops) = Ready"
  "pendingMessagesQueue (producerWith ops) = ops"
  "batchedOps (producerWith ops) = []"
  "completions (producerWith ops) = []"
  "sendTimeout (conf (producerWith ops)) = 30000"
  "partition_ix (producerWith ops) = 3"
  "connection (producerWith ops) = None"
  "semaphore (producerWith ops)
     = Some \<lparr>sem_limit = 10, sem_usage = int (sum_list (map messagesCount ops)),
             sem_closed = False\<rparr>"
  by (simp_all add: producerWith_def newProducerImpl_def batchedOps_def exampleConf_def)

lemma sendOp_fields:
  "onComplete (sendOp seq deadline behaviour) = behaviour"
  "op_timeout (sendOp seq deadline behaviour) = deadline"
  "op_result (sendOp seq deadline behaviour) = ResultOk"
  "messagesCount (sendOp seq deadline behaviour) = 1"
  "messagesSize (sendOp seq deadline behaviour) = 100"
  "sa_sequenceId (sendArgs (sendOp seq deadline behaviour)) = seq"
  "chunkedMessageId (sendOp seq deadline behaviour) = None"
  by (simp_all add: sendOp_def)

subsection \<open>Admission\<close>

lemma sem_tryAcquire_release:
  "fst (sem_tryAcquire n s) \<Longrightarrow> sem_release n (snd (sem_tryAcquire n s)) = s"
  "\<not> fst (sem_tryAcquire n s) \<Longrightarrow> snd (sem_tryAcquire n s) = s"
  by (simp_all add: sem_tryAcquire_def sem_release_def split: if_splits)

lemma tryReserveMemory_failed:
  "\<not> fst (tryReserveMemory n m) \<Longrightarrow> snd (tryReserveMemory n m) = m"
  by (simp add: tryReserveMemory_def split: if_splits)

lemma tryReserveOrRelease_eq:
  "tryReserveOrRelease n p =
     (if fst (tryReserveMemory (int n) (memoryLimitController p))
      then (ResultOk,
            p\<lparr>memoryLimitController := snd (tryReserveMemory (int n) (memoryLimitController p))\<rparr>)
      else (ResultMemoryBufferIsFull,
            p\<lparr>semaphore := map_option (sem_release 1) (semaphore p)\<rparr>))"
proof (cases "tryReserveMemory (int n) (memoryLimitController p)")
  case (Pair ok m)
  then show ?thesis
    using tryReserveMemory_failed [of "int n" "memoryLimitController p"]
    by (cases ok) (simp_all add: tryReserveOrRelease_def)
qed

lemma canEnqueueRequest_nonblocking_eq:
  assumes "\<not> blockIfQueueFull (conf p)"
  shows "canEnqueueRequest n p =
     Returned
       (case semaphore p of
          None \<Rightarrow> tryReserveOrRelease n p
        | Some s \<Rightarrow>
            if fst (sem_tryAcquire 1 s)
            then tryReserveOrRelease n (p\<lparr>semaphore := Some (snd (sem_tryAcquire 1 s))\<rparr>)
            else (ResultProducerQueueIsFull, p\<lparr>semaphore := Some (snd (sem_tryAcquire 1 s))\<rparr>))"
proof (cases "semaphore p")
  case None
  with assms show ?thesis by (simp add: canEnqueueRequest_def)
next
  case (Some s)
  with assms show ?thesis
    by (cases "sem_tryAcquire 1 s"; cases "fst (sem_tryAcquire 1 s)")
       (simp_all add: canEnqueueRequest_def)
qed

text \<open>
  C3. In non-blocking mode \<open>canEnqueueRequest\<close> returns at once.
  When the semaphore's \<open>tryAcquire\<close> fails it returns \<open>ResultProducerQueueIsFull\<close>
  and the producer is as before (nothing is reserved); when the permit is acquired (or
  there is no semaphore) and \<open>tryReserveMemory\<close> fails it returns
  \<open>ResultMemoryBufferIsFull\<close> and the producer is as before (the permit has been
  released again); otherwise, with the permit and the bytes both obtained, and only
  then, it returns \<open>ResultOk\<close>.
\<close>

theorem canEnqueueRequest_nonblocking:
  assumes nb: "\<not> blockIfQueueFull (conf p)"
  shows "canEnqueueRequest bytes p =
     Returned
       (case semaphore p of
          Some s \<Rightarrow>
            if \<not> fst (sem_tryAcquire 1 s) then (ResultProducerQueueIsFull, p)
            else if \<not> fst (tryReserveMemory (int bytes) (memoryLimitController p))
            then (ResultMemoryBufferIsFull, p)
            else (ResultOk,
                  p\<lparr>semaphore := Some (snd (sem_tryAcquire 1 s)),
                    memoryLimitController :=
                      snd (tryReserveMemory (int bytes) (memoryLimitController p))\<rparr>)
        | None \<Rightarrow>
            if \<not> fst (tryReserveMemory (int bytes) (memoryLimitController p))
            then (ResultMemoryBufferIsFull, p)
            else (ResultOk,
                  p\<lparr>memoryLimitController :=
                      snd (tryReserveMemory (int bytes) (memoryLimitController p))\<rparr>))"
proof (cases "semaphore p")
  case None
  with nb show ?thesis
    by (simp add: canEnqueueRequest_nonblocking_eq tryReserveOrRelease_eq)
next
  case (Some s)
  have same: "p\<lparr>semaphore := Some s\<rparr> = p"
    using Some by simp
  show ?thesis
  proof (cases "fst (sem_tryAcquire 1 s)")
    case False
    with Some nb same sem_tryAcquire_release(2) [OF False] show ?thesis
      by (simp add: canEnqueueRequest_nonblocking_eq)
  next
    case True
    with Some nb same sem_tryAcquire_release(1) [OF True] show ?thesis
      by (simp add: canEnqueueRequest_nonblocking_eq tryReserveOrRelease_eq)
  qed
qed

theorem canEnqueueRequest_nonblocking_witness:
  "\<not> blockIfQueueFull (conf (producerWith []))
   \<and> canEnqueueRequest 100 (producerWith [])
       = Returned (ResultOk,
           (producerWith [])
             \<lparr>semaphore := Some \<lparr>sem_limit = 10, sem_usage = 1, sem_closed = False\<rparr>,
              memoryLimitController :=
                \<lparr>memoryLimit = 1000, mem_usage = 100, mem_closed = False\<rparr>\<rparr>)
   \<and> canEnqueueRequest 1001 (producerWith [])
       = Returned (ResultMemoryBufferIsFull, producerWith [])
   \<and> canEnqueueRequest 100
        ((producerWith [])\<lparr>semaphore := Some \<lparr>sem_limit = 1, sem_usage = 1, sem_closed = False\<rparr>\<rparr>)
       = Returned (ResultProducerQueueIsFull,
           (producerWith [])\<lparr>semaphore := Some \<lparr>sem_limit = 1, sem_usage = 1, sem_closed = False\<rparr>\<rparr>)"
proof -
  have nb: "\<not> blockIfQueueFull (conf (producerWith []))"
    "\<not> blockIfQueueFull (conf ((producerWith [])
        \<lparr>semaphore := Some \<lparr>sem_limit = 1, sem_usage = 1, sem_closed = False\<rparr>\<rparr>))"
    by (simp_all add: producerWith_def newProducerImpl_def exampleConf_def)
  from nb canEnqueueRequest_nonblocking [OF nb(1), of 100]
    canEnqueueRequest_nonblocking [OF nb(1), of 1001]
    canEnqueueRequest_nonblocking [OF nb(2), of 100]
  show ?thesis
    by (simp add: producerWith_def newProducerImpl_def sem_tryAcquire_def tryReserveMemory_def
        sendOp_def)
qed

subsection \<open>Send time-out\<close>

lemma total_milliseconds_expired: "total_milliseconds d \<le> 0 \<longleftrightarrow> d < 1000"
  by (auto simp: total_milliseconds_def)

lemma releaseAll_fields [simp]:
  "pendingMessagesQueue (releaseAll ops p) = pendingMessagesQueue p"
  "batchMessageContainer (releaseAll ops p) = batchMessageContainer p"
  "completions (releaseAll ops p) = completions p"
  "sendTimer (releaseAll ops p) = sendTimer p"
  "conf (releaseAll ops p) = conf p"
  "state (releaseAll ops p) = state p"
  by (induction ops arbitrary: p) (simp_all add: releaseSemaphoreForSendOp_def)

lemma releaseAll_semaphore:
  "semaphore (releaseAll ops p)
     = map_option (sem_release (int (sum_list (map messagesCount ops)))) (semaphore p)"
proof (induction ops arbitrary: p)
  case Nil
  show ?case by (cases "semaphore p") (simp_all add: sem_release_def)
next
  case (Cons op ops)
  show ?case
    by (cases "semaphore p")
       (simp_all add: Cons releaseSemaphoreForSendOp_def sem_release_def algebra_simps)
qed

lemma releaseAll_memory:
  "memoryLimitController (releaseAll ops p)
     = releaseMemory (int (sum_list (map messagesSize ops))) (memoryLimitController p)"
proof (induction ops arbitrary: p)
  case Nil
  show ?case by (simp add: releaseMemory_def)
next
  case (Cons op ops)
  show ?case
    by (simp add: Cons releaseSemaphoreForSendOp_def releaseMemory_def algebra_simps)
qed

lemma releaseAll_append: "releaseAll (xs @ ys) p = releaseAll ys (releaseAll xs p)"
  by (induction xs arbitrary: p) simp_all

lemma releaseSemaphoreForSendOp_update:
  "releaseSemaphoreForSendOp op (p\<lparr>batchMessageContainer := b\<rparr>)
     = (releaseSemaphoreForSendOp op p)\<lparr>batchMessageContainer := b\<rparr>"
  "releaseSemaphoreForSendOp op (p\<lparr>pendingMessagesQueue := q\<rparr>)
     = (releaseSemaphoreForSendOp op p)\<lparr>pendingMessagesQueue := q\<rparr>"
  by (simp_all add: releaseSemaphoreForSendOp_def)

lemma releaseAll_update_container:
  "releaseAll ops (p\<lparr>batchMessageContainer := b\<rparr>)
     = (releaseAll ops p)\<lparr>batchMessageContainer := b\<rparr>"
  by (induction ops arbitrary: p) (simp_all add: releaseSemaphoreForSendOp_update)

lemma releaseAll_update_queue:
  "releaseAll ops (p\<lparr>pendingMessagesQueue := q\<rparr>)
     = (releaseAll ops p)\<lparr>pendingMessagesQueue := q\<rparr>"
  by (induction ops arbitrary: p) (simp_all add: releaseSemaphoreForSendOp_update)

lemma getPendingCallbacksWhenFailed_eq:
  "getPendingCallbacksWhenFailed p =
     (pendingMessagesQueue p @ filter (\<lambda>op. op_result op = ResultOk) (batchedOps p),
      (releaseAll (pendingMessagesQueue p @ batchedOps p) p)
        \<lparr>pendingMessagesQueue := [],
         batchMessageContainer := map_option cleared (batchMessageContainer p)\<rparr>)"
proof (cases "batchMessageContainer p")
  case None
  then show ?thesis
    by (simp add: getPendingCallbacksWhenFailed_def batchedOps_def Let_def
        releaseAll_update_queue)
next
  case (Some container)
  show ?thesis
  proof (cases container)
    case (BatchMessageContainer b)
    with Some show ?thesis
      by (cases b)
         (simp_all add: getPendingCallbacksWhenFailed_def batchedOps_def Let_def
            releaseAll_update_queue releaseAll_update_container releaseAll_append)
  next
    case (BatchMessageKeyBasedContainer ops)
    with Some show ?thesis
      by (cases ops)
         (simp_all add: getPendingCallbacksWhenFailed_def batchedOps_def Let_def
            releaseAll_update_queue releaseAll_update_container releaseAll_append)
  qed
qed

lemma completeAll_quiet:
  "\<forall>op \<in> set ops. onComplete op = None \<Longrightarrow>
   completeAll ops r mid p
     = (None, p\<lparr>completions := completions p @ map (\<lambda>op. (op, r, mid)) ops\<rparr>)"
  by (induction ops arbitrary: p) (simp_all add: complete_def)

lemma completeAll_throws:
  "\<forall>op \<in> set quiet. onComplete op = None \<Longrightarrow> onComplete bad = Some e \<Longrightarrow>
   completeAll (quiet @ bad # rest) r mid p
     = (Some e, p\<lparr>completions := completions p @ map (\<lambda>op. (op, r, mid)) (quiet @ [bad])\<rparr>)"
  by (induction quiet arbitrary: p) (simp_all add: complete_def)

text \<open>
  What the handler of the send timer does when it is called without error on a
  Pending or Ready producer, by the whole milliseconds of \<open>diff = head.timeout - now\<close>,
  on which the source branches. With an empty queue the timer is re-armed to
  \<open>sendTimeout\<close> and nothing else changes. With \<open>diff\<close> of a millisecond or more
  the timer is re-armed to \<open>diff\<close> and nothing else changes. With \<open>diff\<close> below one
  millisecond the queue and the batch container are emptied, the permits and bytes of
  their ops are released, the ops of the queue and then the batched ops that were
  created with Ok (not the others) are completed with \<open>ResultTimeout\<close>, provided
  that no callback throws, and the timer is re-armed to \<open>sendTimeout\<close>.
\<close>

theorem handleSendTimeout_fires:
  assumes st: "state p = Pending \<or> state p = Ready"
  shows "(pendingMessagesQueue p = [] \<longrightarrow>
            handleSendTimeout Success now p
              = (None, p\<lparr>sendTimer := Some (milliseconds (sendTimeout (conf p)))\<rparr>))
       \<and> (\<forall>front rest.
            pendingMessagesQueue p = front # rest \<and> 1000 \<le> op_timeout front - now \<longrightarrow>
            handleSendTimeout Success now p
              = (None, p\<lparr>sendTimer := Some (op_timeout front - now)\<rparr>))
       \<and> (\<forall>front rest.
            pendingMessagesQueue p = front # rest \<and> op_timeout front - now < 1000
            \<and> (\<forall>op \<in> set (pendingMessagesQueue p @ batchedOps p). onComplete op = None) \<longrightarrow>
              fst (handleSendTimeout Success now p) = None
            \<and> pendingMessagesQueue (snd (handleSendTimeout Success now p)) = []
            \<and> batchMessageContainer (snd (handleSendTimeout Success now p))
                = map_option cleared (batchMessageContainer p)
            \<and> semaphore (snd (handleSendTimeout Success now p))
                = map_option
                    (sem_release
                       (int (sum_list (map messagesCount (pendingMessagesQueue p @ batchedOps p)))))
                    (semaphore p)
            \<and> memoryLimitController (snd (handleSendTimeout Success now p))
                = releaseMemory
                    (int (sum_list (map messagesSize (pendingMessagesQueue p @ batchedOps p))))
                    (memoryLimitController p)
            \<and> completions (snd (handleSendTimeout Success now p))
                = completions p @
                  map (\<lambda>op. (op, ResultTimeout, emptyMessageId))
                    (pendingMessagesQueue p @
                     filter (\<lambda>op. op_result op = ResultOk) (batchedOps p))
            \<and> sendTimer (snd (handleSendTimeout Success now p))
                = Some (milliseconds (sendTimeout (conf p))))"
proof (intro conjI allI impI)
  assume "pendingMessagesQueue p = []"
  with st show "handleSendTimeout Success now p
              = (None, p\<lparr>sendTimer := Some (milliseconds (sendTimeout (conf p)))\<rparr>)"
    by (auto simp: handleSendTimeout_def asyncWaitSendTimeout_def)
next
  fix front rest
  assume "pendingMessagesQueue p = front # rest \<and> 1000 \<le> op_timeout front - now"
  with st show "handleSendTimeout Success now p
              = (None, p\<lparr>sendTimer := Some (op_timeout front - now)\<rparr>)"
    by (auto simp: handleSendTimeout_def asyncWaitSendTimeout_def Let_def
        total_milliseconds_expired)
next
  fix front rest
  assume a: "pendingMessagesQueue p = front # rest \<and> op_timeout front - now < 1000
            \<and> (\<forall>op \<in> set (pendingMessagesQueue p @ batchedOps p). onComplete op = None)"
  let ?ops = "pendingMessagesQueue p @ filter (\<lambda>op. op_result op = ResultOk) (batchedOps p)"
  let ?p1 = "(releaseAll (pendingMessagesQueue p @ batchedOps p) p)
        \<lparr>pendingMessagesQueue := [],
         batchMessageContainer := map_option cleared (batchMessageContainer p)\<rparr>"
  have quiet: "\<forall>op \<in> set ?ops. onComplete op = None"
    using a by auto
  have run: "handleSendTimeout Success now p
     = (None, (asyncWaitSendTimeout (milliseconds (sendTimeout (conf ?p1))) ?p1)
          \<lparr>completions :=
             completions (asyncWaitSendTimeout (milliseconds (sendTimeout (conf ?p1))) ?p1) @
             map (\<lambda>op. (op, ResultTimeout, emptyMessageId)) ?ops\<rparr>)"
    using st a completeAll_quiet [OF quiet]
    by (auto simp: handleSendTimeout_def Let_def total_milliseconds_expired
        getPendingCallbacksWhenFailed_eq)
  show "fst (handleSendTimeout Success now p) = None"
    by (simp add: run)
  show "pendingMessagesQueue (snd (handleSendTimeout Success now p)) = []"
    by (simp add: run asyncWaitSendTimeout_def)
  show "batchMessageContainer (snd (handleSendTimeout Success now p))
                = map_option cleared (batchMessageContainer p)"
    by (simp add: run asyncWaitSendTimeout_def)
  show "semaphore (snd (handleSendTimeout Success now p))
                = map_option
                    (sem_release
                       (int (sum_list (map messagesCount (pendingMessagesQueue p @ batchedOps p)))))
                    (semaphore p)"
    by (simp add: run asyncWaitSendTimeout_def releaseAll_semaphore)
  show "memoryLimitController (snd (handleSendTimeout Success now p))
                = releaseMemory
                    (int (sum_list (map messagesSize (pendingMessagesQueue p @ batchedOps p))))
                    (memoryLimitController p)"
    by (simp add: run asyncWaitSendTimeout_def releaseAll_memory)
  show "completions (snd (handleSendTimeout Success now p))
                = completions p @
                  map (\<lambda>op. (op, ResultTimeout, emptyMessageId))
                    (pendingMessagesQueue p @
                     filter (\<lambda>op. op_result op = ResultOk) (batchedOps p))"
    by (simp add: run asyncWaitSendTimeout_def)
  show "sendTimer (snd (handleSendTimeout Success now p))
                = Some (milliseconds (sendTimeout (conf p)))"
    by (simp add: run asyncWaitSendTimeout_def)
qed

theorem handleSendTimeout_fires_witness:
  "(state (producerWith []) = Pending \<or> state (producerWith []) = Ready)
   \<and> handleSendTimeout Success 7 (producerWith [])
       = (None, (producerWith [])\<lparr>sendTimer := Some 30000000\<rparr>)
   \<and> handleSendTimeout Success 500 (producerWith [sendOp 5 2000 None])
       = (None, (producerWith [sendOp 5 2000 None])\<lparr>sendTimer := Some 1500\<rparr>)
   \<and> fst (handleSendTimeout Success 7 (producerWith [sendOp 5 0 None, sendOp 6 3 None])) = None
   \<and> pendingMessagesQueue
       (snd (handleSendTimeout Success 7 (producerWith [sendOp 5 0 None, sendOp 6 3 None]))) = []
   \<and> semaphore
       (snd (handleSendTimeout Success 7 (producerWith [sendOp 5 0 None, sendOp 6 3 None])))
       = Some \<lparr>sem_limit = 10, sem_usage = 0, sem_closed = False\<rparr>
   \<and> completions
       (snd (handleSendTimeout Success 7 (producerWith [sendOp 5 0 None, sendOp 6 3 None])))
       = [(sendOp 5 0 None, ResultTimeout, emptyMessageId),
          (sendOp 6 3 None, ResultTimeout, emptyMessageId)]
   \<and> sendTimer
       (snd (handleSendTimeout Success 7 (producerWith [sendOp 5 0 None, sendOp 6 3 None])))
       = Some 30000000"
proof -
  have st: "state (producerWith ops) = Pending \<or> state (producerWith ops) = Ready" for ops
    by (simp add: producerWith_fields)
  from st [of "[]"]
    handleSendTimeout_fires [OF st, of "[]" 7]
    handleSendTimeout_fires [OF st, of "[sendOp 5 2000 None]" 500]
    handleSendTimeout_fires [OF st, of "[sendOp 5 0 None, sendOp 6 3 None]" 7]
  show ?thesis
    by (simp add: producerWith_fields sendOp_fields milliseconds_def sem_release_def)
qed

text \<open>
  C4. With \<open>diff > 0\<close> the timer is to be re-armed to \<open>diff\<close> and the queue left as
  it is, as the comments of the source say too ("The diff is greater than zero, set the
  timeout to the diff value"). The source tests \<open>diff.total_milliseconds() <= 0\<close>:
  with half a millisecond left (\<open>diff = 500\<close> microseconds) the count of whole
  milliseconds is 0, and the op, whose deadline has not passed, is removed from the
  queue and completed with \<open>ResultTimeout\<close> instead.
\<close>

theorem handleSendTimeout_expires_early:
  "0 < op_timeout (sendOp 5 500 None) - 0
   \<and> handleSendTimeout Success 0 (producerWith [sendOp 5 500 None])
       \<noteq> (None, (producerWith [sendOp 5 500 None])
                  \<lparr>sendTimer := Some (op_timeout (sendOp 5 500 None) - 0)\<rparr>)
   \<and> pendingMessagesQueue (snd (handleSendTimeout Success 0 (producerWith [sendOp 5 500 None])))
       = []
   \<and> completions (snd (handleSendTimeout Success 0 (producerWith [sendOp 5 500 None])))
       = [(sendOp 5 500 None, ResultTimeout, emptyMessageId)]"
proof -
  have run: "handleSendTimeout Success 0 (producerWith [sendOp 5 500 None])
      = completeAll [sendOp 5 500 None] ResultTimeout emptyMessageId
          (asyncWaitSendTimeout 30000000
             ((releaseAll [sendOp 5 500 None] (producerWith [sendOp 5 500 None]))
                \<lparr>pendingMessagesQueue := [],
                 batchMessageContainer :=
                   map_option cleared
                     (batchMessageContainer (producerWith [sendOp 5 500 None]))\<rparr>))"
    by (simp add: handleSendTimeout_def producerWith_fields sendOp_fields Let_def
        total_milliseconds_def getPendingCallbacksWhenFailed_eq milliseconds_def
        del: releaseAll.simps completeAll.simps)
  have q: "pendingMessagesQueue (snd (handleSendTimeout Success 0 (producerWith [sendOp 5 500 None])))
       = []"
    by (simp add: run complete_def asyncWaitSendTimeout_def sendOp_fields
        releaseSemaphoreForSendOp_def)
  have c: "completions (snd (handleSendTimeout Success 0 (producerWith [sendOp 5 500 None])))
       = [(sendOp 5 500 None, ResultTimeout, emptyMessageId)]"
    by (simp add: run complete_def asyncWaitSendTimeout_def producerWith_fields sendOp_fields
        releaseSemaphoreForSendOp_def)
  have n: "handleSendTimeout Success 0 (producerWith [sendOp 5 500 None])
       \<noteq> (None, (producerWith [sendOp 5 500 None])
                  \<lparr>sendTimer := Some (op_timeout (sendOp 5 500 None) - 0)\<rparr>)"
  proof
    assume "handleSendTimeout Success 0 (producerWith [sendOp 5 500 None])
       = (None, (producerWith [sendOp 5 500 None])
                  \<lparr>sendTimer := Some (op_timeout (sendOp 5 500 None) - 0)\<rparr>)"
    then have "pendingMessagesQueue (snd (handleSendTimeout Success 0 (producerWith [sendOp 5 500 None])))
       = [sendOp 5 500 None]"
      by (simp add: producerWith_fields)
    with q show False by simp
  qed
  from q c n show ?thesis by (simp add: sendOp_fields)
qed

text \<open>
  C9. \<open>ackReceived\<close> catches the \<open>std::exception\<close> that a callback throws and
  returns true. \<open>handleSendTimeout\<close> and \<open>failPendingMessages\<close> complete the ops
  outside any \<open>try\<close> block: with a first op whose callback throws, the exception
  leaves \<open>handleSendTimeout\<close>, after the queue has been emptied and before the
  second op is completed, and it leaves \<open>failPendingMessages\<close> in the same way.
\<close>

theorem callback_exception_escapes_send_timeout:
  "fst (ackReceived 5 \<lparr>ledgerId = 1, entryId = 0, mid_partition = - 1, batchIndex = - 1\<rparr>
          (producerWith [sendOp 5 0 (Some (StdException ''boom'')), sendOp 6 0 None]))
     = Inr True
   \<and> fst (handleSendTimeout Success 7
            (producerWith [sendOp 5 0 (Some (StdException ''boom'')), sendOp 6 0 None]))
     = Some (StdException ''boom'')
   \<and> pendingMessagesQueue
       (snd (handleSendTimeout Success 7
               (producerWith [sendOp 5 0 (Some (StdException ''boom'')), sendOp 6 0 None])))
     = []
   \<and> completions
       (snd (handleSendTimeout Success 7
               (producerWith [sendOp 5 0 (Some (StdException ''boom'')), sendOp 6 0 None])))
     = [(sendOp 5 0 (Some (StdException ''boom'')), ResultTimeout, emptyMessageId)]
   \<and> fst (failPendingMessages ResultAlreadyClosed
            (producerWith [sendOp 5 0 (Some (StdException ''boom'')), sendOp 6 0 None]))
     = Some (StdException ''boom'')"
proof -
  let ?bad = "sendOp 5 0 (Some (StdException ''boom''))"
  let ?p = "producerWith [?bad, sendOp 6 0 None]"
  have ack: "fst (ackReceived 5 \<lparr>ledgerId = 1, entryId = 0, mid_partition = - 1, batchIndex = - 1\<rparr> ?p)
     = Inr True"
    by (simp add: ackReceived_def producerWith_fields sendOp_fields Let_def ackMessageId_def
        complete_def)
  have thr: "completeAll ([] @ ?bad # [sendOp 6 0 None]) r mid q
     = (Some (StdException ''boom''),
        q\<lparr>completions := completions q @ map (\<lambda>op. (op, r, mid)) ([] @ [?bad])\<rparr>)" for r mid q
    by (rule completeAll_throws) (simp_all add: sendOp_fields)
  have run: "handleSendTimeout Success 7 ?p
      = completeAll [?bad, sendOp 6 0 None] ResultTimeout emptyMessageId
          (asyncWaitSendTimeout 30000000
             ((releaseAll [?bad, sendOp 6 0 None] ?p)
                \<lparr>pendingMessagesQueue := [],
                 batchMessageContainer := map_option cleared (batchMessageContainer ?p)\<rparr>))"
    by (simp add: handleSendTimeout_def producerWith_fields sendOp_fields Let_def
        total_milliseconds_def getPendingCallbacksWhenFailed_eq milliseconds_def
        del: releaseAll.simps completeAll.simps)
  have fp: "failPendingMessages ResultAlreadyClosed ?p
      = completeAll [?bad, sendOp 6 0 None] ResultAlreadyClosed emptyMessageId
          ((releaseAll [?bad, sendOp 6 0 None] ?p)
                \<lparr>pendingMessagesQueue := [],
                 batchMessageContainer := map_option cleared (batchMessageContainer ?p)\<rparr>)"
    by (simp add: failPendingMessages_def getPendingCallbacksWhenFailed_eq producerWith_fields
        del: releaseAll.simps completeAll.simps)
  from ack thr [of ResultTimeout] thr [of ResultAlreadyClosed] show ?thesis
    by (simp add: run fp asyncWaitSendTimeout_def producerWith_fields
        del: releaseAll.simps completeAll.simps)
qed

subsection \<open>Reconnection\<close>

lemma resendAll_accepted:
  "writes_ok c \<Longrightarrow>
   accepted (resendAll ops c) = accepted c @ map (\<lambda>op. OutSend (sendArgs op)) ops
   \<and> writes_ok (resendAll ops c)"
proof (induction ops arbitrary: c)
  case Nil
  then show ?case by simp
next
  case (Cons op ops)
  from accepted_cnx_sendMessage [OF Cons.prems, of "sendArgs op"]
  have step: "accepted (cnx_sendMessage (sendArgs op) c) = accepted c @ [OutSend (sendArgs op)]"
    and ok: "writes_ok (cnx_sendMessage (sendArgs op) c)"
    by simp_all
  from Cons.IH [OF ok] step show ?case by simp
qed

lemma registry_accepted [simp]:
  "accepted (registerProducer pid h c) = accepted c"
  "writes_ok (registerProducer pid h c) = writes_ok c"
  "accepted (removeProducer pid c) = accepted c"
  "writes_ok (removeProducer pid c) = writes_ok c"
  by (simp_all add: registerProducer_def removeProducer_def accepted_def writes_ok_def)

lemma onCnx_at:
  "cs cnx = Some c \<Longrightarrow> onCnx cnx f cs cnx = Some (f c)"
  "cs other = None \<Longrightarrow> onCnx other f cs = cs"
  by (simp_all add: onCnx_def)

lemma setCnx_result:
  assumes "cs cnx = Some c"
  shows "fst (setCnx cnx (p, cs)) = p\<lparr>connection := Some cnx\<rparr>"
    and "\<exists>c'. snd (setCnx cnx (p, cs)) cnx = Some c' \<and> accepted c' = accepted c
              \<and> (writes_ok c' \<longleftrightarrow> writes_ok c)"
proof -
  show "fst (setCnx cnx (p, cs)) = p\<lparr>connection := Some cnx\<rparr>"
    by (simp add: setCnx_def Let_def)
  show "\<exists>c'. snd (setCnx cnx (p, cs)) cnx = Some c' \<and> accepted c' = accepted c
              \<and> (writes_ok c' \<longleftrightarrow> writes_ok c)"
  proof (cases "lockCnx cs (connection p)")
    case None
    with assms show ?thesis by (simp add: setCnx_def Let_def)
  next
    case (Some previousCnx)
    then obtain pc where pc: "cs previousCnx = Some pc"
      by (auto simp: lockCnx_def split: option.splits)
    show ?thesis
    proof (cases "previousCnx = cnx")
      case True
      with Some assms show ?thesis
        by (simp add: setCnx_def Let_def onCnx_def)
    next
      case False
      with Some assms pc show ?thesis
        by (simp add: setCnx_def Let_def onCnx_def)
    qed
  qed
qed

lemma setCnx_fst: "fst (setCnx cnx w) = (fst w)\<lparr>connection := Some cnx\<rparr>"
  by (simp add: setCnx_def Let_def)

lemma startSendTimeoutTimer_fields [simp]:
  "state (startSendTimeoutTimer p) = state p"
  "connection (startSendTimeoutTimer p) = connection p"
  "pendingMessagesQueue (startSendTimeoutTimer p) = pendingMessagesQueue p"
  by (simp_all add: startSendTimeoutTimer_def asyncWaitSendTimeout_def)

lemma createdOnBroker_result:
  assumes c: "cs cnx = Some c" and wr: "writes_ok c"
  shows "state (fst (createdOnBroker cnx rd (p, cs))) = Ready"
    and "connection (fst (createdOnBroker cnx rd (p, cs))) = Some cnx"
    and "pendingMessagesQueue (fst (createdOnBroker cnx rd (p, cs))) = pendingMessagesQueue p"
    and "\<exists>c'. snd (createdOnBroker cnx rd (p, cs)) cnx = Some c'
            \<and> accepted c' = accepted c @ map (\<lambda>op. OutSend (sendArgs op)) (pendingMessagesQueue p)
            \<and> writes_ok c'"
proof -
  let ?cs1 = "onCnx cnx (registerProducer (producerId p) (producerId p)) cs"
  let ?p1 = "p\<lparr>producerName := rd_producerName rd,
                 schemaVersion := rd_schemaVersion rd,
                 topicEpoch := rd_topicEpoch rd\<rparr>"
  let ?p2 = "(if lastSequenceIdPublished ?p1 = - 1 \<and> initialSequenceId (conf ?p1) = - 1
                then ?p1\<lparr>lastSequenceIdPublished := rd_lastSequenceId rd,
                        msgSequenceGenerator := rd_lastSequenceId rd + 1\<rparr>
                else ?p1)"
  let ?cs2 = "resendMessages cnx ?p2 ?cs1"
  have q2: "pendingMessagesQueue ?p2 = pendingMessagesQueue p"
    by simp
  have cs1: "?cs1 cnx = Some (registerProducer (producerId p) (producerId p) c)"
    using c by (simp add: onCnx_at)
  have cs2: "?cs2 cnx
      = Some (resendAll (pendingMessagesQueue p) (registerProducer (producerId p) (producerId p) c))"
    using cs1 q2 by (cases "pendingMessagesQueue p = []") (simp_all add: resendMessages_def onCnx_at)
  from resendAll_accepted [of "registerProducer (producerId p) (producerId p) c"
      "pendingMessagesQueue p"] wr
  have acc: "accepted (resendAll (pendingMessagesQueue p)
                (registerProducer (producerId p) (producerId p) c))
             = accepted c @ map (\<lambda>op. OutSend (sendArgs op)) (pendingMessagesQueue p)"
    and wr2: "writes_ok (resendAll (pendingMessagesQueue p)
                (registerProducer (producerId p) (producerId p) c))"
    by simp_all
  from setCnx_result(2) [where cs = ?cs2 and cnx = cnx and p = ?p2
      and c = "resendAll (pendingMessagesQueue p) (registerProducer (producerId p) (producerId p) c)",
      OF cs2] acc wr2
  obtain c' where c': "snd (setCnx cnx (?p2, ?cs2)) cnx = Some c'"
    "accepted c' = accepted c @ map (\<lambda>op. OutSend (sendArgs op)) (pendingMessagesQueue p)"
    "writes_ok c'"
    by auto
  have f: "fst (setCnx cnx (?p2, ?cs2)) = ?p2\<lparr>connection := Some cnx\<rparr>"
    by (simp add: setCnx_def Let_def)
  have sndeq: "snd (createdOnBroker cnx rd (p, cs)) = snd (setCnx cnx (?p2, ?cs2))"
    by (simp add: createdOnBroker_def Let_def)
  show "state (fst (createdOnBroker cnx rd (p, cs))) = Ready"
    by (simp add: createdOnBroker_def Let_def setCnx_fst)
  show "connection (fst (createdOnBroker cnx rd (p, cs))) = Some cnx"
    by (simp add: createdOnBroker_def Let_def setCnx_fst)
  show "pendingMessagesQueue (fst (createdOnBroker cnx rd (p, cs))) = pendingMessagesQueue p"
    by (simp add: createdOnBroker_def Let_def setCnx_fst)
  show "\<exists>c'. snd (createdOnBroker cnx rd (p, cs)) cnx = Some c'
            \<and> accepted c' = accepted c @ map (\<lambda>op. OutSend (sendArgs op)) (pendingMessagesQueue p)
            \<and> writes_ok c'"
    using c' by (simp add: sndeq)
qed

lemma sendMessage_attached:
  assumes "connection p = Some cnx" and "cs cnx = Some c" and "writes_ok c"
  shows "\<exists>c'. snd (sendMessage opSendMsg (p, cs)) cnx = Some c'
           \<and> accepted c' = accepted c @ [OutSend (sendArgs opSendMsg)]"
  using assms accepted_cnx_sendMessage [of c "sendArgs opSendMsg"]
  by (simp add: sendMessage_def Let_def lockCnx_def onCnx_def)

lemma sendMessage_detached:
  assumes "lockCnx cs (connection p) = None"
  shows "sendMessage opSendMsg (p, cs)
           = (p\<lparr>pendingMessagesQueue := pendingMessagesQueue p @ [opSendMsg]\<rparr>, cs)"
  using assms by (simp add: sendMessage_def Let_def)

text \<open>
  C2. When the CREATE_PRODUCER response is Ok and the producer is Pending or Ready,
  with k ops in its queue, \<open>handleCreateProducer\<close> hands exactly those k ops to the
  new connection, in queue order and with the arguments they were queued with, then
  attaches the connection and enters Ready; the queue is unchanged. An op sent
  afterwards is written after the k ops, and an op sent while no connection is
  attached is only queued, so that it is among the k.
\<close>

theorem reconnect_resends_queue_in_order:
  assumes st: "state p = Pending \<or> state p = Ready"
    and c: "cs cnx = Some c"
    and wr: "writes_ok c"
    and run: "handleCreateProducer cnx ResultOk rd now (p, cs) = (thrown, p', cs')"
  shows "thrown = None
       \<and> state p' = Ready
       \<and> connection p' = Some cnx
       \<and> pendingMessagesQueue p' = pendingMessagesQueue p
       \<and> (\<exists>c'. cs' cnx = Some c'
              \<and> accepted c'
                  = accepted c @ map (\<lambda>op. OutSend (sendArgs op)) (pendingMessagesQueue p))
       \<and> (\<forall>opNew. \<exists>c''. snd (sendMessage opNew (p', cs')) cnx = Some c''
              \<and> accepted c''
                  = accepted c @ map (\<lambda>op. OutSend (sendArgs op)) (pendingMessagesQueue p)
                    @ [OutSend (sendArgs opNew)])
       \<and> (lockCnx cs (connection p) = None \<longrightarrow>
            (\<forall>opNew. snd (sendMessage opNew (p, cs)) = cs))"
proof -
  from st run have r: "thrown = None" "p' = fst (createdOnBroker cnx rd (p, cs))"
    "cs' = snd (createdOnBroker cnx rd (p, cs))"
    by (auto simp: handleCreateProducer_def Let_def)
  note res = createdOnBroker_result [where cs = cs and cnx = cnx and c = c and rd = rd and p = p,
      OF c wr, folded r]
  from res(4) obtain c' where c': "cs' cnx = Some c'"
    "accepted c' = accepted c @ map (\<lambda>op. OutSend (sendArgs op)) (pendingMessagesQueue p)"
    "writes_ok c'"
    by auto
  have new: "\<exists>c''. snd (sendMessage opNew (p', cs')) cnx = Some c''
              \<and> accepted c''
                  = accepted c @ map (\<lambda>op. OutSend (sendArgs op)) (pendingMessagesQueue p)
                    @ [OutSend (sendArgs opNew)]" for opNew
    using sendMessage_attached [where p = p' and cs = cs' and cnx = cnx and c = c'
        and opSendMsg = opNew, OF res(2) c'(1) c'(3)] c'(2) by simp
  have det: "lockCnx cs (connection p) = None \<longrightarrow>
            (\<forall>opNew. snd (sendMessage opNew (p, cs)) = cs)"
    by (simp add: sendMessage_detached)
  from r(1) res(1,2,3) c' new det show ?thesis by blast
qed

theorem reconnect_resends_queue_in_order_witness:
  "(state ((producerWith [sendOp 5 0 None, sendOp 6 0 None])\<lparr>state := Pending\<rparr>) = Pending
      \<or> state ((producerWith [sendOp 5 0 None, sendOp 6 0 None])\<lparr>state := Pending\<rparr>) = Ready)
   \<and> (Map.empty(0 := Some readyConnection)) (0::nat) = Some readyConnection
   \<and> writes_ok readyConnection
   \<and> fst (handleCreateProducer 0 ResultOk
             \<lparr>rd_producerName = ''standalone-0-7'', rd_lastSequenceId = 4,
              rd_schemaVersion = [], rd_topicEpoch = None\<rparr> 0
             ((producerWith [sendOp 5 0 None, sendOp 6 0 None])\<lparr>state := Pending\<rparr>,
              Map.empty(0 := Some readyConnection))) = None
   \<and> map_option accepted
       (snd (snd (handleCreateProducer 0 ResultOk
             \<lparr>rd_producerName = ''standalone-0-7'', rd_lastSequenceId = 4,
              rd_schemaVersion = [], rd_topicEpoch = None\<rparr> 0
             ((producerWith [sendOp 5 0 None, sendOp 6 0 None])\<lparr>state := Pending\<rparr>,
              Map.empty(0 := Some readyConnection)))) 0)
       = Some [OutSend (sendArgs (sendOp 5 0 None)), OutSend (sendArgs (sendOp 6 0 None))]
   \<and> state (fst (snd (handleCreateProducer 0 ResultOk
             \<lparr>rd_producerName = ''standalone-0-7'', rd_lastSequenceId = 4,
              rd_schemaVersion = [], rd_topicEpoch = None\<rparr> 0
             ((producerWith [sendOp 5 0 None, sendOp 6 0 None])\<lparr>state := Pending\<rparr>,
              Map.empty(0 := Some readyConnection))))) = Ready"
proof -
  let ?p = "(producerWith [sendOp 5 0 None, sendOp 6 0 None])\<lparr>state := Pending\<rparr>"
  let ?cs = "Map.empty(0 := Some readyConnection) :: CnxStore"
  let ?rd = "\<lparr>rd_producerName = ''standalone-0-7'', rd_lastSequenceId = 4,
              rd_schemaVersion = [], rd_topicEpoch = None\<rparr>"
  let ?r = "handleCreateProducer 0 ResultOk ?rd 0 (?p, ?cs)"
  have st: "state ?p = Pending \<or> state ?p = Ready" by simp
  have c: "?cs 0 = Some readyConnection" by simp
  have wr: "writes_ok readyConnection" "accepted readyConnection = []"
    by (simp_all add: readyConnection_def newClientConnection_def writes_ok_def accepted_def)
  have run: "?r = (fst ?r, fst (snd ?r), snd (snd ?r))" by simp
  have q: "pendingMessagesQueue ?p = [sendOp 5 0 None, sendOp 6 0 None]"
    by (simp add: producerWith_fields)
  from reconnect_resends_queue_in_order
    [where p = ?p and cs = ?cs and cnx = 0 and c = readyConnection and rd = ?rd and now = 0
       and thrown = "fst ?r" and p' = "fst (snd ?r)" and cs' = "snd (snd ?r)",
     OF st c wr(1) run]
  have "fst ?r = None" "state (fst (snd ?r)) = Ready"
    "\<exists>c'. snd (snd ?r) 0 = Some c'
        \<and> accepted c' = [OutSend (sendArgs (sendOp 5 0 None)), OutSend (sendArgs (sendOp 6 0 None))]"
    by (simp_all add: q wr(2))
  with st c wr(1) show ?thesis by auto
qed

end
